theory Spec2Isabelle
  imports Main "HOL-Library.AList"
begin

section \<open>Strings\<close>

text \<open>
  JavaScript strings are modelled as \<^typ>\<open>string\<close>, one \<^typ>\<open>char\<close> per code unit, over
  the ASCII alphabet. White space is what \<^verbatim>\<open>String.prototype.trim\<close> and the regular
  expression class \<^verbatim>\<open>\s\<close> accept in that alphabet: tab, line feed, vertical tab, form
  feed, carriage return and space.
\<close>

definition isSpace :: "char \<Rightarrow> bool" where
  "isSpace c = (c = CHR 0x09 \<or> c = CHR 0x0A \<or> c = CHR 0x0B \<or> c = CHR 0x0C \<or> c = CHR 0x0D \<or> c = CHR '' '')"

definition trim :: "string \<Rightarrow> string" where
  "trim s = rev (dropWhile isSpace (rev (dropWhile isSpace s)))"

fun startsWith :: "string \<Rightarrow> string \<Rightarrow> bool" where
  "startsWith s [] = True"
| "startsWith [] (p # ps) = False"
| "startsWith (c # s) (p # ps) = (c = p \<and> startsWith s ps)"

text \<open>\<^verbatim>\<open>s.includes(sub)\<close>: \<open>sub\<close> occurs in \<open>s\<close> as a contiguous run.\<close>

fun str_includes :: "string \<Rightarrow> string \<Rightarrow> bool" where
  "str_includes [] sub = (sub = [])"
| "str_includes (c # s) sub = (startsWith (c # s) sub \<or> str_includes s sub)"

text \<open>\<^verbatim>\<open>s.split(' ')\<close>: the fields between single occurrences of the separator; empty
  fields are kept, and the empty string gives one empty field.\<close>

fun split_char :: "char \<Rightarrow> string \<Rightarrow> string list" where
  "split_char sep [] = [[]]"
| "split_char sep (x # xs) =
     (if x = sep then [] # split_char sep xs
      else (case split_char sep xs of
              w # ws \<Rightarrow> (x # w) # ws
            | [] \<Rightarrow> [[x]]))"

text \<open>\<^verbatim>\<open>s.split(/\s+/)\<close>: the fields between maximal runs of white space.\<close>

fun split_ws :: "string \<Rightarrow> string list" where
  "split_ws [] = [[]]"
| "split_ws (x # xs) =
     (if isSpace x then
        (if xs \<noteq> [] \<and> isSpace (hd xs) then split_ws xs else [] # split_ws xs)
      else (case split_ws xs of
              w # ws \<Rightarrow> (x # w) # ws
            | [] \<Rightarrow> [[x]]))"

text \<open>\<^verbatim>\<open>s.replace(/\s+/g, ' ')\<close>: every maximal run of white space becomes one space.\<close>

fun collapse_ws :: "string \<Rightarrow> string" where
  "collapse_ws [] = []"
| "collapse_ws (x # xs) =
     (if isSpace x then
        (if xs \<noteq> [] \<and> isSpace (hd xs) then collapse_ws xs else CHR '' '' # collapse_ws xs)
      else x # collapse_ws xs)"

definition lower_char :: "char \<Rightarrow> char" where
  "lower_char c =
     (case map_of (zip ''ABCDEFGHIJKLMNOPQRSTUVWXYZ'' ''abcdefghijklmnopqrstuvwxyz'') c of
        Some d \<Rightarrow> d
      | None \<Rightarrow> c)"

definition upper_char :: "char \<Rightarrow> char" where
  "upper_char c =
     (case map_of (zip ''abcdefghijklmnopqrstuvwxyz'' ''ABCDEFGHIJKLMNOPQRSTUVWXYZ'') c of
        Some d \<Rightarrow> d
      | None \<Rightarrow> c)"

definition toLowerCase :: "string \<Rightarrow> string" where
  "toLowerCase s = map lower_char s"

definition toUpperCase :: "string \<Rightarrow> string" where
  "toUpperCase s = map upper_char s"

text \<open>\<^verbatim>\<open>x || undefined\<close> on an attribute value: a missing attribute and the empty string are
  both falsy.\<close>

definition or_undefined :: "string option \<Rightarrow> string option" where
  "or_undefined v = (case v of Some s \<Rightarrow> (if s = [] then None else Some s) | None \<Rightarrow> None)"

text \<open>\<^verbatim>\<open>x || d\<close> with a string default.\<close>

definition or_else :: "string option \<Rightarrow> string \<Rightarrow> string" where
  "or_else v d = (case v of Some s \<Rightarrow> (if s = [] then d else s) | None \<Rightarrow> d)"

section \<open>The parsed page\<close>

text \<open>
  \<^verbatim>\<open>cheerio.load(html)\<close> is the library's parser; the analyzer works on the tree it returns.
  A node is an element with its tag name, its attributes in source order and its children,
  a text node, or a comment. A document is the list of the root's children.
\<close>

datatype node =
    Element string "(string \<times> string) list" "node list"
  | Text string
  | Comment string

type_synonym document = "node list"

fun tagName :: "node \<Rightarrow> string" where
  "tagName (Element t a cs) = t"
| "tagName (Text s) = []"
| "tagName (Comment s) = []"

fun attribs :: "node \<Rightarrow> (string \<times> string) list" where
  "attribs (Element t a cs) = a"
| "attribs (Text s) = []"
| "attribs (Comment s) = []"

fun children :: "node \<Rightarrow> node list" where
  "children (Element t a cs) = cs"
| "children (Text s) = []"
| "children (Comment s) = []"

text \<open>\<^verbatim>\<open>$el.attr(name)\<close>: the value of the attribute, \<open>None\<close> for \<^verbatim>\<open>undefined\<close>.\<close>

definition attr :: "node \<Rightarrow> string \<Rightarrow> string option" where
  "attr el name = map_of (attribs el) name"

text \<open>The elements of a subtree in document order, the root first.\<close>

fun subtree_elements :: "node \<Rightarrow> node list" where
  "subtree_elements (Element t a cs) = Element t a cs # concat (map subtree_elements cs)"
| "subtree_elements (Text s) = []"
| "subtree_elements (Comment s) = []"

text \<open>\<^verbatim>\<open>$('*')\<close>: every element of the document, in document order.\<close>

definition all_elements :: "document \<Rightarrow> node list" where
  "all_elements doc = concat (map subtree_elements doc)"

text \<open>\<^verbatim>\<open>$el.find(...)\<close> searches the proper descendants of an element.\<close>

definition descendants :: "node \<Rightarrow> node list" where
  "descendants el = concat (map subtree_elements (children el))"

text \<open>\<^verbatim>\<open>.text()\<close> of one node: the text nodes below it, concatenated.\<close>

fun text_of :: "node \<Rightarrow> string" where
  "text_of (Element t a cs) = concat (map text_of cs)"
| "text_of (Text s) = s"
| "text_of (Comment s) = []"

text \<open>\<^verbatim>\<open>.html()\<close> is called on script elements only. The parser gives a script element
  text children alone, and they are written out unescaped.\<close>

fun raw_text :: "node \<Rightarrow> string" where
  "raw_text (Text s) = s"
| "raw_text (Element t a cs) = []"
| "raw_text (Comment s) = []"

definition inner_html :: "node \<Rightarrow> string" where
  "inner_html el = concat (map raw_text (children el))"

subsection \<open>Selectors\<close>

text \<open>
  A selector is a predicate on elements; \<^verbatim>\<open>$(sel)\<close> keeps the elements that satisfy it, in
  document order. Tag and attribute names are compared as the parser stores them. The class
  selector \<^verbatim>\<open>.c\<close> asks for \<open>c\<close> among the white-space separated words of the class
  attribute; \<^verbatim>\<open>[a*="v"]\<close> asks for \<open>v\<close> inside the value of attribute \<open>a\<close>; \<^verbatim>\<open>[a="v"]\<close>
  asks for equality, which the selector engine decides without regard to letter case for the
  attributes \<^verbatim>\<open>type\<close> and \<^verbatim>\<open>rel\<close> of an HTML document.
\<close>

definition is_tag :: "string \<Rightarrow> node \<Rightarrow> bool" where
  "is_tag t el = (tagName el = t)"

definition has_attr :: "string \<Rightarrow> node \<Rightarrow> bool" where
  "has_attr a el = (attr el a \<noteq> None)"

definition attr_contains :: "string \<Rightarrow> string \<Rightarrow> node \<Rightarrow> bool" where
  "attr_contains a v el = (case attr el a of Some s \<Rightarrow> str_includes s v | None \<Rightarrow> False)"

definition attr_equals :: "string \<Rightarrow> string \<Rightarrow> node \<Rightarrow> bool" where
  "attr_equals a v el = (attr el a = Some v)"

definition attr_equals_nocase :: "string \<Rightarrow> string \<Rightarrow> node \<Rightarrow> bool" where
  "attr_equals_nocase a v el =
     (case attr el a of Some s \<Rightarrow> toLowerCase s = toLowerCase v | None \<Rightarrow> False)"

definition class_words :: "node \<Rightarrow> string list" where
  "class_words el = (case attr el ''class'' of Some s \<Rightarrow> filter (\<lambda>w. w \<noteq> []) (split_ws s) | None \<Rightarrow> [])"

definition has_class :: "string \<Rightarrow> node \<Rightarrow> bool" where
  "has_class c el = (c \<in> set (class_words el))"

definition select :: "(node \<Rightarrow> bool) \<Rightarrow> document \<Rightarrow> node list" where
  "select sel doc = filter sel (all_elements doc)"

text \<open>\<^verbatim>\<open>$(sel).length > 0\<close>\<close>

definition present :: "(node \<Rightarrow> bool) \<Rightarrow> document \<Rightarrow> bool" where
  "present sel doc = (select sel doc \<noteq> [])"

text \<open>\<^verbatim>\<open>$(sel).attr(name)\<close> reads the attribute of the first selected element.\<close>

definition first_attr :: "(node \<Rightarrow> bool) \<Rightarrow> string \<Rightarrow> document \<Rightarrow> string option" where
  "first_attr sel name doc = (case select sel doc of [] \<Rightarrow> None | el # rest \<Rightarrow> attr el name)"

text \<open>\<^verbatim>\<open>$(sel).text()\<close> joins the text of every selected element.\<close>

definition selection_text :: "(node \<Rightarrow> bool) \<Rightarrow> document \<Rightarrow> string" where
  "selection_text sel doc = concat (map text_of (select sel doc))"

section \<open>collectScrapedData: classes and ids\<close>

text \<open>
  \<^verbatim>\<open>className.split(' ').forEach(cls => { if (cls.trim() && !allClasses.includes(cls.trim()))
  allClasses.push(cls.trim()); })\<close>
\<close>

definition push_class :: "string list \<Rightarrow> string \<Rightarrow> string list" where
  "push_class acc cls = (if trim cls \<noteq> [] \<and> trim cls \<notin> set acc then acc @ [trim cls] else acc)"

definition add_classes :: "string list \<Rightarrow> node \<Rightarrow> string list" where
  "add_classes acc el =
     (case attr el ''class'' of
        Some className \<Rightarrow>
          (if className \<noteq> [] then foldl push_class acc (split_char CHR '' '' className) else acc)
      | None \<Rightarrow> acc)"

definition collect_classes :: "document \<Rightarrow> string list" where
  "collect_classes doc = foldl add_classes [] (all_elements doc)"

definition add_id :: "string list \<Rightarrow> node \<Rightarrow> string list" where
  "add_id acc el =
     (case attr el ''id'' of
        Some i \<Rightarrow> (if i \<noteq> [] \<and> i \<notin> set acc then acc @ [i] else acc)
      | None \<Rightarrow> acc)"

definition collect_ids :: "document \<Rightarrow> string list" where
  "collect_ids doc = foldl add_id [] (all_elements doc)"

section \<open>collectScrapedData: the snapshot\<close>

text \<open>
  Optional fields (\<^verbatim>\<open>x || undefined\<close>) are options. \<^verbatim>\<open>parseInt\<close> and \<^verbatim>\<open>JSON.parse\<close>
  belong to the platform: they are parameters of the extraction, of result types \<open>'n\<close> and
  \<open>'j\<close>; a \<^verbatim>\<open>SyntaxError\<close> thrown by \<^verbatim>\<open>JSON.parse\<close> is the value \<open>Inl SyntaxError\<close>.
\<close>

datatype error = SyntaxError | TypeError

record 'n image =
  img_src :: string
  img_alt :: "string option"
  img_width :: "'n option"
  img_height :: "'n option"

record video =
  vid_src :: "string option"
  vid_poster :: "string option"
  vid_type :: string

record link =
  href :: string
  link_text :: string
  target :: "string option"

record form_input =
  input_type :: string
  input_name :: "string option"
  placeholder :: "string option"
  required :: bool

record form =
  action :: "string option"
  form_method :: "string option"
  inputs :: "form_input list"

record script =
  script_src :: "string option"
  script_content :: "string option"
  script_type :: "string option"

record ('j, 'n) ScrapedData =
  html :: string
  title :: string
  description :: "string option"
  metaTags :: "(string \<times> string) list"
  allClasses :: "string list"
  allIds :: "string list"
  allTextContent :: string
  images :: "'n image list"
  videos :: "video list"
  links :: "link list"
  forms :: "form list"
  scripts :: "script list"
  stylesheets :: "string list"
  structuredData :: "'j list"
  socialMediaLinks :: "string list"
  paymentIndicators :: "string list"
  ecommerceIndicators :: "string list"
  contentIndicators :: "string list"

text \<open>\<^verbatim>\<open>$('title').text().trim() || 'Untitled'\<close>\<close>

definition page_title :: "document \<Rightarrow> string" where
  "page_title doc =
     (let t = trim (selection_text (is_tag ''title'') doc) in if t = [] then ''Untitled'' else t)"

text \<open>\<^verbatim>\<open>$('meta[name="description"]').attr('content') ||
  $('meta[property="og:description"]').attr('content')\<close>, before the final default.\<close>

definition meta_description :: "document \<Rightarrow> string option" where
  "meta_description doc =
     (case or_undefined
             (first_attr (\<lambda>el. is_tag ''meta'' el \<and> attr_equals ''name'' ''description'' el)
                ''content'' doc) of
        Some d \<Rightarrow> Some d
      | None \<Rightarrow>
          first_attr (\<lambda>el. is_tag ''meta'' el \<and> attr_equals ''property'' ''og:description'' el)
            ''content'' doc)"

text \<open>Meta tags: the key is \<^verbatim>\<open>name || property || http-equiv\<close>; an entry is stored when
  key and content are both truthy, a later entry overwriting an earlier one of the same key.
  The list stands for the mapping \<^verbatim>\<open>metaTags\<close>; the assignment \<^verbatim>\<open>metaTags[name] = content\<close>
  under the key \<^verbatim>\<open>__proto__\<close> reaches the prototype setter, which ignores a string and
  creates no property.\<close>

definition add_meta :: "(string \<times> string) list \<Rightarrow> node \<Rightarrow> (string \<times> string) list" where
  "add_meta acc el =
     (let name =
            (case or_undefined (attr el ''name'') of
               Some n \<Rightarrow> Some n
             | None \<Rightarrow>
                 (case or_undefined (attr el ''property'') of
                    Some n \<Rightarrow> Some n
                  | None \<Rightarrow> attr el ''http-equiv''));
          content = attr el ''content''
      in (case (or_undefined name, or_undefined content) of
            (Some n, Some c) \<Rightarrow> (if n = ''__proto__'' then acc else AList.update n c acc)
          | _ \<Rightarrow> acc))"

definition collect_metaTags :: "document \<Rightarrow> (string \<times> string) list" where
  "collect_metaTags doc = foldl add_meta [] (select (is_tag ''meta'') doc)"

text \<open>\<^verbatim>\<open>$('body').text().replace(/\s+/g, ' ').trim()\<close>\<close>

definition collect_text :: "document \<Rightarrow> string" where
  "collect_text doc = trim (collapse_ws (selection_text (is_tag ''body'') doc))"

definition collect_images :: "(string \<Rightarrow> 'n) \<Rightarrow> document \<Rightarrow> 'n image list" where
  "collect_images parseInt doc =
     map (\<lambda>el. \<lparr> img_src = or_else (attr el ''src'') [],
                img_alt = or_undefined (attr el ''alt''),
                img_width = map_option parseInt (or_undefined (attr el ''width'')),
                img_height = map_option parseInt (or_undefined (attr el ''height'')) \<rparr>)
       (select (is_tag ''img'') doc)"

text \<open>\<^verbatim>\<open>$el.prop('tagName')?.toLowerCase() || 'unknown'\<close>\<close>

definition tag_or_unknown :: "node \<Rightarrow> string" where
  "tag_or_unknown el =
     (let t = toLowerCase (toUpperCase (tagName el)) in if t = [] then ''unknown'' else t)"

definition is_video :: "node \<Rightarrow> bool" where
  "is_video el =
     (is_tag ''video'' el \<or> (is_tag ''iframe'' el \<and> attr_contains ''src'' ''youtube'' el)
      \<or> (is_tag ''iframe'' el \<and> attr_contains ''src'' ''vimeo'' el))"

definition collect_videos :: "document \<Rightarrow> video list" where
  "collect_videos doc =
     map (\<lambda>el. \<lparr> vid_src = or_undefined (attr el ''src''),
                vid_poster = or_undefined (attr el ''poster''),
                vid_type = tag_or_unknown el \<rparr>)
       (select is_video doc)"

definition collect_links :: "document \<Rightarrow> link list" where
  "collect_links doc =
     map (\<lambda>el. \<lparr> href = or_else (attr el ''href'') [],
                link_text = trim (text_of el),
                target = or_undefined (attr el ''target'') \<rparr>)
       (select (\<lambda>el. is_tag ''a'' el \<and> has_attr ''href'' el) doc)"

definition collect_inputs :: "node \<Rightarrow> form_input list" where
  "collect_inputs el =
     map (\<lambda>i. \<lparr> input_type = or_else (attr i ''type'') (tag_or_unknown i),
               input_name = or_undefined (attr i ''name''),
               placeholder = or_undefined (attr i ''placeholder''),
               required = (attr i ''required'' \<noteq> None) \<rparr>)
       (filter (\<lambda>i. is_tag ''input'' i \<or> is_tag ''select'' i \<or> is_tag ''textarea'' i)
          (descendants el))"

definition collect_forms :: "document \<Rightarrow> form list" where
  "collect_forms doc =
     map (\<lambda>el. \<lparr> action = or_undefined (attr el ''action''),
                form_method = or_undefined (attr el ''method''),
                inputs = collect_inputs el \<rparr>)
       (select (is_tag ''form'') doc)"

definition collect_scripts :: "document \<Rightarrow> script list" where
  "collect_scripts doc =
     map (\<lambda>el. \<lparr> script_src = or_undefined (attr el ''src''),
                script_content = or_undefined (Some (inner_html el)),
                script_type = or_undefined (attr el ''type'') \<rparr>)
       (select (is_tag ''script'') doc)"

definition collect_stylesheets :: "document \<Rightarrow> string list" where
  "collect_stylesheets doc =
     filter (\<lambda>h. h \<noteq> [])
       (map (\<lambda>el. or_else (attr el ''href'') [])
          (select (\<lambda>el. is_tag ''link'' el \<and> attr_equals_nocase ''rel'' ''stylesheet'' el) doc))"

text \<open>
  Structured data. The body of the loop is
  \<^verbatim>\<open>try { const content = $(el).html(); if (content) structuredData.push(JSON.parse(content)); }
  catch (e) { }\<close>:
  \<open>try_push\<close> is the \<^verbatim>\<open>try\<close> block, whose only throwing step is the parser, and
  \<open>add_structured\<close> is the whole statement, the handler keeping the list as it was.
\<close>

definition try_push :: "(string \<Rightarrow> error + 'j) \<Rightarrow> 'j list \<Rightarrow> node \<Rightarrow> error + 'j list" where
  "try_push JSON_parse acc el =
     (let content = inner_html el
      in if content \<noteq> [] then
           (case JSON_parse content of
              Inl e \<Rightarrow> Inl e
            | Inr v \<Rightarrow> Inr (acc @ [v]))
         else Inr acc)"

definition add_structured :: "(string \<Rightarrow> error + 'j) \<Rightarrow> 'j list \<Rightarrow> node \<Rightarrow> 'j list" where
  "add_structured JSON_parse acc el =
     (case try_push JSON_parse acc el of
        Inr acc' \<Rightarrow> acc'
      | Inl e \<Rightarrow> acc)"

definition is_ld_json :: "node \<Rightarrow> bool" where
  "is_ld_json el = (is_tag ''script'' el \<and> attr_equals_nocase ''type'' ''application/ld+json'' el)"

definition collect_structuredData :: "(string \<Rightarrow> error + 'j) \<Rightarrow> document \<Rightarrow> 'j list" where
  "collect_structuredData JSON_parse doc =
     foldl (add_structured JSON_parse) [] (select is_ld_json doc)"

definition social_domains :: "string list" where
  "social_domains =
     [''facebook.com'', ''twitter.com'', ''linkedin.com'', ''instagram.com'', ''youtube.com'',
      ''tiktok.com'', ''snapchat.com'']"

definition collect_socialMediaLinks :: "link list \<Rightarrow> string list" where
  "collect_socialMediaLinks ls =
     map href (filter (\<lambda>l. list_ex (str_includes (href l)) social_domains) ls)"

definition payment_words :: "string list" where
  "payment_words =
     [''paypal'', ''stripe'', ''square'', ''visa'', ''mastercard'', ''amex'', ''payment'',
      ''checkout'', ''cart'', ''buy'', ''purchase'']"

definition ecommerce_words :: "string list" where
  "ecommerce_words =
     [''product'', ''price'', ''sale'', ''discount'', ''shipping'', ''inventory'', ''stock'',
      ''add to cart'', ''buy now'', ''shop'']"

definition content_words :: "string list" where
  "content_words =
     [''article'', ''blog'', ''post'', ''news'', ''tutorial'', ''guide'', ''documentation'',
      ''help'', ''faq'']"

text \<open>\<^verbatim>\<open>allTextContent.toLowerCase().split(/\s+/).filter(word => word.includes(k1) || ...)\<close>\<close>

definition indicators :: "string list \<Rightarrow> string \<Rightarrow> string list" where
  "indicators keys txt = filter (\<lambda>word. list_ex (str_includes word) keys) (split_ws (toLowerCase txt))"

definition collectScrapedData ::
  "(string \<Rightarrow> error + 'j) \<Rightarrow> (string \<Rightarrow> 'n) \<Rightarrow> document \<Rightarrow> string \<Rightarrow> ('j, 'n) ScrapedData" where
  "collectScrapedData JSON_parse parseInt doc page_html =
     (let allTextContent = collect_text doc;
          links = collect_links doc
      in \<lparr> html = page_html,
           title = page_title doc,
           description = or_undefined (meta_description doc),
           metaTags = collect_metaTags doc,
           allClasses = collect_classes doc,
           allIds = collect_ids doc,
           allTextContent = allTextContent,
           images = collect_images parseInt doc,
           videos = collect_videos doc,
           links = links,
           forms = collect_forms doc,
           scripts = collect_scripts doc,
           stylesheets = collect_stylesheets doc,
           structuredData = collect_structuredData JSON_parse doc,
           socialMediaLinks = collect_socialMediaLinks links,
           paymentIndicators = indicators payment_words allTextContent,
           ecommerceIndicators = indicators ecommerce_words allTextContent,
           contentIndicators = indicators content_words allTextContent \<rparr>)"

section \<open>detectElements\<close>

record DetectedElements =
  hasVideo :: bool
  hasImages :: bool
  hasForms :: bool
  hasNavigation :: bool
  hasFooter :: bool
  hasSidebar :: bool
  hasComments :: bool
  hasSearch :: bool
  hasShoppingCart :: bool
  hasUserAuth :: bool

text \<open>\<^verbatim>\<open>$('tag').length > 0\<close>, \<^verbatim>\<open>$('.c').length > 0\<close>, \<^verbatim>\<open>$('[class*="s"]').length > 0\<close> and
  \<^verbatim>\<open>$('[id*="s"]').length > 0\<close>.\<close>

definition tag_present :: "string \<Rightarrow> document \<Rightarrow> bool" where
  "tag_present t doc = present (is_tag t) doc"

definition class_present :: "string \<Rightarrow> document \<Rightarrow> bool" where
  "class_present c doc = present (has_class c) doc"

definition class_part_present :: "string \<Rightarrow> document \<Rightarrow> bool" where
  "class_part_present s doc = present (attr_contains ''class'' s) doc"

definition id_part_present :: "string \<Rightarrow> document \<Rightarrow> bool" where
  "id_part_present s doc = present (attr_contains ''id'' s) doc"

definition detectElements :: "document \<Rightarrow> DetectedElements" where
  "detectElements doc =
     \<lparr> hasVideo = (tag_present ''video'' doc
                   \<or> present (\<lambda>el. is_tag ''iframe'' el \<and> attr_contains ''src'' ''youtube'' el) doc
                   \<or> present (\<lambda>el. is_tag ''iframe'' el \<and> attr_contains ''src'' ''vimeo'' el) doc),
       hasImages = tag_present ''img'' doc,
       hasForms = tag_present ''form'' doc,
       hasNavigation = (tag_present ''nav'' doc \<or> class_present ''nav'' doc
                        \<or> class_present ''navigation'' doc),
       hasFooter = (tag_present ''footer'' doc \<or> class_present ''footer'' doc),
       hasSidebar = (class_present ''sidebar'' doc \<or> class_present ''side-bar'' doc
                     \<or> tag_present ''aside'' doc),
       hasComments = (class_present ''comments'' doc \<or> class_present ''comment'' doc
                      \<or> id_part_present ''comment'' doc),
       hasSearch = (present (\<lambda>el. is_tag ''input'' el \<and> attr_equals_nocase ''type'' ''search'' el) doc
                    \<or> class_present ''search'' doc \<or> id_part_present ''search'' doc),
       hasShoppingCart = (class_present ''cart'' doc \<or> class_present ''shopping-cart'' doc
                          \<or> id_part_present ''cart'' doc),
       hasUserAuth = (class_present ''login'' doc \<or> class_present ''signin'' doc
                      \<or> id_part_present ''login'' doc \<or> id_part_present ''signin'' doc) \<rparr>"

section \<open>detectTechnicalDetails\<close>

record TechnicalDetails =
  framework :: "string option"
  cms :: "string option"
  analytics :: "string list"
  socialMedia :: "string list"
  paymentMethods :: "string list"

text \<open>\<^verbatim>\<open>cond && list.push(label)\<close>\<close>

definition push_if :: "bool \<Rightarrow> string \<Rightarrow> string list \<Rightarrow> string list" where
  "push_if cond label xs = (if cond then xs @ [label] else xs)"

text \<open>The body of the loop over \<^verbatim>\<open>$('script')\<close>: three independent tests of one script's
  content, each pushing its label.\<close>

definition add_analytics :: "string list \<Rightarrow> node \<Rightarrow> string list" where
  "add_analytics acc el =
     (let scriptContent = inner_html el;
          a1 = push_if (str_includes scriptContent ''google-analytics''
                        \<or> str_includes scriptContent ''gtag'') ''Google Analytics'' acc;
          a2 = push_if (str_includes scriptContent ''facebook''
                        \<and> str_includes scriptContent ''pixel'') ''Facebook Pixel'' a1;
          a3 = push_if (str_includes scriptContent ''mixpanel'') ''Mixpanel'' a2
      in a3)"

definition detect_analytics :: "document \<Rightarrow> string list" where
  "detect_analytics doc = foldl add_analytics [] (select (is_tag ''script'') doc)"

definition link_to :: "string \<Rightarrow> document \<Rightarrow> bool" where
  "link_to domain doc = present (\<lambda>el. is_tag ''a'' el \<and> attr_contains ''href'' domain el) doc"

definition detect_socialMedia :: "document \<Rightarrow> string list" where
  "detect_socialMedia doc =
     (let s1 = push_if (link_to ''facebook.com'' doc) ''Facebook'' [];
          s2 = push_if (link_to ''twitter.com'' doc) ''Twitter'' s1;
          s3 = push_if (link_to ''linkedin.com'' doc) ''LinkedIn'' s2;
          s4 = push_if (link_to ''instagram.com'' doc) ''Instagram'' s3;
          s5 = push_if (link_to ''youtube.com'' doc) ''YouTube'' s4
      in s5)"

definition img_from :: "string \<Rightarrow> document \<Rightarrow> bool" where
  "img_from s doc = present (\<lambda>el. is_tag ''img'' el \<and> attr_contains ''src'' s el) doc"

definition detect_paymentMethods :: "document \<Rightarrow> string list" where
  "detect_paymentMethods doc =
     (let p1 = push_if (img_from ''stripe'' doc) ''Stripe'' [];
          p2 = push_if (img_from ''paypal'' doc) ''PayPal'' p1;
          p3 = push_if (img_from ''square'' doc) ''Square'' p2;
          p4 = push_if (class_part_present ''stripe'' doc) ''Stripe'' p3;
          p5 = push_if (class_part_present ''paypal'' doc) ''PayPal'' p4
      in p5)"

definition script_from :: "string \<Rightarrow> document \<Rightarrow> bool" where
  "script_from s doc = present (\<lambda>el. is_tag ''script'' el \<and> attr_contains ''src'' s el) doc"

definition react_rule :: "document \<Rightarrow> bool" where
  "react_rule doc = (script_from ''react'' doc \<or> present (has_attr ''data-reactroot'') doc)"

definition vue_rule :: "document \<Rightarrow> bool" where
  "vue_rule doc = (script_from ''vue'' doc \<or> present (has_attr ''data-v-'') doc)"

definition angular_rule :: "document \<Rightarrow> bool" where
  "angular_rule doc = (script_from ''angular'' doc \<or> present (has_attr ''ng-app'') doc)"

text \<open>\<^verbatim>\<open>let framework: string | undefined;\<close> followed by three \<^verbatim>\<open>if\<close> statements, none with
  an \<^verbatim>\<open>else\<close>; each assigns the variable when its test holds.\<close>

definition detect_framework :: "document \<Rightarrow> string option" where
  "detect_framework doc =
     (let f0 = None;
          f1 = (if react_rule doc then Some ''React'' else f0);
          f2 = (if vue_rule doc then Some ''Vue.js'' else f1);
          f3 = (if angular_rule doc then Some ''Angular'' else f2)
      in f3)"

text \<open>\<^verbatim>\<open>$('meta[name="generator"]').attr('content')?.includes(name)\<close>\<close>

definition generator_includes :: "string \<Rightarrow> document \<Rightarrow> bool" where
  "generator_includes name doc =
     (case first_attr (\<lambda>el. is_tag ''meta'' el \<and> attr_equals ''name'' ''generator'' el)
             ''content'' doc of
        Some c \<Rightarrow> str_includes c name
      | None \<Rightarrow> False)"

definition detect_cms :: "document \<Rightarrow> string option" where
  "detect_cms doc =
     (let c0 = None;
          c1 = (if generator_includes ''WordPress'' doc then Some ''WordPress'' else c0);
          c2 = (if generator_includes ''Drupal'' doc then Some ''Drupal'' else c1);
          c3 = (if generator_includes ''Joomla'' doc then Some ''Joomla'' else c2)
      in c3)"

definition detectTechnicalDetails :: "document \<Rightarrow> TechnicalDetails" where
  "detectTechnicalDetails doc =
     \<lparr> framework = detect_framework doc,
       cms = detect_cms doc,
       analytics = detect_analytics doc,
       socialMedia = detect_socialMedia doc,
       paymentMethods = detect_paymentMethods doc \<rparr>"

section \<open>determineWebsiteType\<close>

datatype WebsiteType =
    ecommerce | blog | news | portfolio | corporate | social_media | forum | documentation
  | landing_page | saas | educational | entertainment | government | nonprofit | unknown

text \<open>The conditions of the \<^verbatim>\<open>if\<close> statements, one definition each, in the order of the
  source. In JavaScript \<^verbatim>\<open>&&\<close> binds tighter than \<^verbatim>\<open>||\<close>.\<close>

definition ecommerce_cond :: "document \<Rightarrow> DetectedElements \<Rightarrow> TechnicalDetails \<Rightarrow> string \<Rightarrow> bool" where
  "ecommerce_cond doc elements technical url =
     (hasShoppingCart elements \<or> length (paymentMethods technical) > 0
      \<or> class_present ''product'' doc \<or> class_part_present ''product'' doc
      \<or> class_present ''price'' doc \<or> class_part_present ''price'' doc)"

definition blog_cond :: "document \<Rightarrow> DetectedElements \<Rightarrow> TechnicalDetails \<Rightarrow> string \<Rightarrow> bool" where
  "blog_cond doc elements technical url =
     (tag_present ''article'' doc \<or> class_present ''post'' doc \<or> class_present ''blog'' doc
      \<or> class_part_present ''post'' doc \<or> class_part_present ''blog'' doc)"

definition news_cond :: "document \<Rightarrow> DetectedElements \<Rightarrow> TechnicalDetails \<Rightarrow> string \<Rightarrow> bool" where
  "news_cond doc elements technical url =
     (class_present ''news'' doc \<or> class_part_present ''news'' doc
      \<or> class_present ''article'' doc \<or> class_part_present ''article'' doc
      \<or> class_present ''headline'' doc \<or> class_part_present ''headline'' doc)"

definition portfolio_cond :: "document \<Rightarrow> DetectedElements \<Rightarrow> TechnicalDetails \<Rightarrow> string \<Rightarrow> bool" where
  "portfolio_cond doc elements technical url =
     (class_present ''portfolio'' doc \<or> class_part_present ''portfolio'' doc
      \<or> class_present ''gallery'' doc \<or> class_part_present ''gallery'' doc
      \<or> class_present ''work'' doc \<or> class_part_present ''work'' doc)"

definition social_media_cond :: "document \<Rightarrow> DetectedElements \<Rightarrow> TechnicalDetails \<Rightarrow> string \<Rightarrow> bool" where
  "social_media_cond doc elements technical url =
     (hasUserAuth elements \<and> hasComments elements
      \<and> (hasVideo elements \<or> hasImages elements)
      \<and> length (socialMedia technical) > 0)"

definition forum_cond :: "document \<Rightarrow> DetectedElements \<Rightarrow> TechnicalDetails \<Rightarrow> string \<Rightarrow> bool" where
  "forum_cond doc elements technical url =
     ((hasComments elements \<and> hasUserAuth elements \<and> class_present ''thread'' doc)
      \<or> class_part_present ''thread'' doc
      \<or> class_present ''topic'' doc \<or> class_part_present ''topic'' doc)"

definition documentation_cond :: "document \<Rightarrow> DetectedElements \<Rightarrow> TechnicalDetails \<Rightarrow> string \<Rightarrow> bool" where
  "documentation_cond doc elements technical url =
     (class_present ''documentation'' doc \<or> class_part_present ''docs'' doc
      \<or> class_present ''tutorial'' doc \<or> class_part_present ''tutorial'' doc
      \<or> class_present ''guide'' doc \<or> class_part_present ''guide'' doc)"

definition saas_cond :: "document \<Rightarrow> DetectedElements \<Rightarrow> TechnicalDetails \<Rightarrow> string \<Rightarrow> bool" where
  "saas_cond doc elements technical url =
     (hasUserAuth elements \<and> hasForms elements
      \<and> (class_present ''dashboard'' doc \<or> class_part_present ''dashboard'' doc
         \<or> class_present ''app'' doc \<or> class_part_present ''app'' doc))"

definition educational_cond :: "document \<Rightarrow> DetectedElements \<Rightarrow> TechnicalDetails \<Rightarrow> string \<Rightarrow> bool" where
  "educational_cond doc elements technical url =
     (class_present ''course'' doc \<or> class_part_present ''course'' doc
      \<or> class_present ''lesson'' doc \<or> class_part_present ''lesson'' doc
      \<or> class_present ''education'' doc \<or> class_part_present ''education'' doc)"

definition entertainment_cond :: "document \<Rightarrow> DetectedElements \<Rightarrow> TechnicalDetails \<Rightarrow> string \<Rightarrow> bool" where
  "entertainment_cond doc elements technical url =
     (hasVideo elements
      \<and> (class_present ''entertainment'' doc \<or> class_part_present ''entertainment'' doc
         \<or> class_present ''media'' doc \<or> class_part_present ''media'' doc))"

definition government_cond :: "document \<Rightarrow> DetectedElements \<Rightarrow> TechnicalDetails \<Rightarrow> string \<Rightarrow> bool" where
  "government_cond doc elements technical url =
     (class_present ''gov'' doc \<or> class_part_present ''gov'' doc
      \<or> str_includes url ''.gov'' \<or> class_present ''government'' doc)"

definition nonprofit_cond :: "document \<Rightarrow> DetectedElements \<Rightarrow> TechnicalDetails \<Rightarrow> string \<Rightarrow> bool" where
  "nonprofit_cond doc elements technical url =
     (class_present ''nonprofit'' doc \<or> class_part_present ''nonprofit'' doc
      \<or> class_present ''charity'' doc \<or> class_part_present ''charity'' doc
      \<or> class_present ''donate'' doc \<or> class_part_present ''donate'' doc)"

definition landing_page_cond :: "document \<Rightarrow> DetectedElements \<Rightarrow> TechnicalDetails \<Rightarrow> string \<Rightarrow> bool" where
  "landing_page_cond doc elements technical url =
     (class_present ''landing'' doc \<or> class_part_present ''landing'' doc
      \<or> class_present ''hero'' doc \<or> class_part_present ''hero'' doc)"

definition corporate_cond :: "document \<Rightarrow> DetectedElements \<Rightarrow> TechnicalDetails \<Rightarrow> string \<Rightarrow> bool" where
  "corporate_cond doc elements technical url =
     (hasNavigation elements \<and> hasFooter elements
      \<and> (class_present ''about'' doc \<or> class_part_present ''about'' doc
         \<or> class_present ''contact'' doc \<or> class_part_present ''contact'' doc))"

text \<open>The function body: fourteen \<^verbatim>\<open>if (...) return ...;\<close> statements and a final
  \<^verbatim>\<open>return 'unknown'\<close>.\<close>

definition determineWebsiteType ::
  "document \<Rightarrow> DetectedElements \<Rightarrow> TechnicalDetails \<Rightarrow> string \<Rightarrow> WebsiteType" where
  "determineWebsiteType doc elements technical url =
     (if ecommerce_cond doc elements technical url then ecommerce
      else if blog_cond doc elements technical url then blog
      else if news_cond doc elements technical url then news
      else if portfolio_cond doc elements technical url then portfolio
      else if social_media_cond doc elements technical url then social_media
      else if forum_cond doc elements technical url then forum
      else if documentation_cond doc elements technical url then documentation
      else if saas_cond doc elements technical url then saas
      else if educational_cond doc elements technical url then educational
      else if entertainment_cond doc elements technical url then entertainment
      else if government_cond doc elements technical url then government
      else if nonprofit_cond doc elements technical url then nonprofit
      else if landing_page_cond doc elements technical url then landing_page
      else if corporate_cond doc elements technical url then corporate
      else unknown)"

text \<open>The specification's reading of the classifier: an ordered list of (predicate, label)
  pairs, the first pair whose predicate holds giving the label, and \<open>unknown\<close> when none
  holds.\<close>

type_synonym rule = "(document \<Rightarrow> DetectedElements \<Rightarrow> TechnicalDetails \<Rightarrow> string \<Rightarrow> bool) \<times> WebsiteType"

definition priority_rules :: "rule list" where
  "priority_rules =
     [(ecommerce_cond, ecommerce), (blog_cond, blog), (news_cond, news),
      (portfolio_cond, portfolio), (social_media_cond, social_media), (forum_cond, forum),
      (documentation_cond, documentation), (saas_cond, saas), (educational_cond, educational),
      (entertainment_cond, entertainment), (government_cond, government),
      (nonprofit_cond, nonprofit), (landing_page_cond, landing_page),
      (corporate_cond, corporate)]"

fun first_match ::
  "rule list \<Rightarrow> document \<Rightarrow> DetectedElements \<Rightarrow> TechnicalDetails \<Rightarrow> string \<Rightarrow> WebsiteType" where
  "first_match [] doc elements technical url = unknown"
| "first_match ((cond, label) # rest) doc elements technical url =
     (if cond doc elements technical url then label
      else first_match rest doc elements technical url)"

section \<open>analyzeWebsite\<close>

text \<open>
  The browser session (\<^verbatim>\<open>page.goto\<close>, \<^verbatim>\<open>page.content\<close>) and the parser deliver the page; the
  model starts from the rendered markup and its parsed tree. The field
  \<^verbatim>\<open>schemaRecommendation\<close> is a constant advisory record and is left out.
\<close>

record ('j, 'n) AnalysisResult =
  url :: string
  result_title :: string
  result_description :: string
  websiteType :: WebsiteType
  detectedElements :: DetectedElements
  technicalDetails :: TechnicalDetails
  scrapedData :: "('j, 'n) ScrapedData"

definition analyzeWebsite ::
  "(string \<Rightarrow> error + 'j) \<Rightarrow> (string \<Rightarrow> 'n) \<Rightarrow> string \<Rightarrow> string \<Rightarrow> document
     \<Rightarrow> ('j, 'n) AnalysisResult" where
  "analyzeWebsite JSON_parse parseInt page_url page_html doc =
     (let scraped = collectScrapedData JSON_parse parseInt doc page_html;
          elements = detectElements doc;
          technical = detectTechnicalDetails doc
      in \<lparr> url = page_url,
           result_title = page_title doc,
           result_description = or_else (meta_description doc) [],
           websiteType = determineWebsiteType doc elements technical page_url,
           detectedElements = elements,
           technicalDetails = technical,
           scrapedData = scraped \<rparr>)"

section \<open>generateSchemaMarkup\<close>

subsection \<open>Values and the store\<close>

text \<open>
  The synthesizer builds its document by assignment and \<^verbatim>\<open>push\<close>, and
  \<^verbatim>\<open>Object.assign\<close> copies references, so objects and arrays live in a store: a value is a
  primitive or a reference to a cell, and a cell is a plain object (its own enumerable
  properties in insertion order) or an array. Allocation appends a cell. A number is kept
  as an integer; the synthesizer only asks whether it is zero. \<open>JBuiltin\<close> stands for a
  member inherited from \<^verbatim>\<open>Object.prototype\<close>.
\<close>

datatype jsval =
    JUndefined | JNull | JBool bool | JNum int | JStr string | JRef nat | JBuiltin

datatype cell = Obj "(string \<times> jsval) list" | Arr "jsval list"

type_synonym store = "cell list"

text \<open>A reference outside the store does not occur in a running program; it reads as an
  empty object.\<close>

definition cell_at :: "store \<Rightarrow> nat \<Rightarrow> cell" where
  "cell_at h a = (if a < length h then h ! a else Obj [])"

definition alloc :: "cell \<Rightarrow> store \<Rightarrow> nat \<times> store" where
  "alloc c h = (length h, h @ [c])"

fun truthy :: "jsval \<Rightarrow> bool" where
  "truthy JUndefined = False"
| "truthy JNull = False"
| "truthy (JBool b) = b"
| "truthy (JNum n) = (n \<noteq> 0)"
| "truthy (JStr s) = (s \<noteq> [])"
| "truthy (JRef a) = True"
| "truthy JBuiltin = True"

text \<open>
  Three outcomes end a call early. \<open>TypeError\<close> is the exception of the platform
  (\<^verbatim>\<open>new URL\<close> on an invalid URL, a call of something that is not a function, a property
  read on \<^verbatim>\<open>null\<close> or \<^verbatim>\<open>undefined\<close>). \<open>Unmodelled\<close> marks the two inputs on which this
  development does not say what the program does: an analysis result whose image list is
  not an array, which \<^verbatim>\<open>AnalysisResultSchema.parse\<close> never returns, and custom properties
  that replace the prototype of the document through the key \<^verbatim>\<open>__proto__\<close>.
\<close>

datatype failure = Thrown error | Unmodelled

definition object_prototype_names :: "string list" where
  "object_prototype_names =
     [''constructor'', ''__defineGetter__'', ''__defineSetter__'', ''hasOwnProperty'',
      ''__lookupGetter__'', ''__lookupSetter__'', ''isPrototypeOf'', ''propertyIsEnumerable'',
      ''toString'', ''valueOf'', ''__proto__'', ''toLocaleString'']"

text \<open>\<^verbatim>\<open>obj[key]\<close> on a plain object: an own property, else a member inherited from
  \<^verbatim>\<open>Object.prototype\<close>, else \<^verbatim>\<open>undefined\<close>.\<close>

definition get_prop :: "(string \<times> jsval) list \<Rightarrow> string \<Rightarrow> jsval" where
  "get_prop fs key =
     (case map_of fs key of
        Some v \<Rightarrow> v
      | None \<Rightarrow> (if key \<in> set object_prototype_names then JBuiltin else JUndefined))"

text \<open>Decimal digits of an array index.\<close>

function decimal :: "nat \<Rightarrow> string" where
  "decimal n = (if n < 10 then [''0123456789'' ! n] else decimal (n div 10) @ [''0123456789'' ! (n mod 10)])"
  by pat_completeness auto
termination
  by (relation "measure (\<lambda>n. n)") auto

definition indexed :: "jsval list \<Rightarrow> (string \<times> jsval) list" where
  "indexed xs = zip (map decimal [0..<length xs]) xs"

text \<open>The own enumerable properties of a value, as \<^verbatim>\<open>Object.assign\<close> and the spread
  \<^verbatim>\<open>{...v}\<close> read them: the properties of an object, the elements of an array or the
  characters of a string under their indices, and none for any other value.\<close>

definition own_props :: "store \<Rightarrow> jsval \<Rightarrow> (string \<times> jsval) list" where
  "own_props h v =
     (case v of
        JRef a \<Rightarrow> (case cell_at h a of Obj fs \<Rightarrow> fs | Arr xs \<Rightarrow> indexed xs)
      | JStr s \<Rightarrow> indexed (map (\<lambda>c. JStr [c]) s)
      | _ \<Rightarrow> [])"

subsection \<open>The inputs\<close>

text \<open>
  The handler passes the analysis result as \<^verbatim>\<open>AnalysisResultSchema.parse\<close> returned it. The
  synthesizer reads its \<^verbatim>\<open>url\<close>, \<^verbatim>\<open>title\<close> and \<^verbatim>\<open>description\<close>, which are strings and as
  such cannot be changed by any operation, and \<^verbatim>\<open>scrapedData.images\<close>, an array in the
  store whose elements refer to the image entries. It never assigns to a property of the
  analysis result.
  A nested schema has a type, a context and its properties; the properties and the custom
  properties are values of the request (declared as objects, typed \<^verbatim>\<open>any\<close>).
\<close>

record StoredResult =
  stored_url :: string
  stored_title :: string
  stored_description :: "string option"
  stored_images :: nat

record NestedSchema =
  nested_type :: string
  nested_context :: string
  nested_properties :: jsval

subsection \<open>Images\<close>

text \<open>\<^verbatim>\<open>img.src\<close> and \<^verbatim>\<open>img.alt\<close>: neither name is a member of a built-in prototype, so the
  read finds an own property of an object or nothing; on \<^verbatim>\<open>null\<close> and \<^verbatim>\<open>undefined\<close> it
  throws.\<close>

definition image_field :: "store \<Rightarrow> jsval \<Rightarrow> string \<Rightarrow> failure + jsval" where
  "image_field h img key =
     (case img of
        JUndefined \<Rightarrow> Inl (Thrown TypeError)
      | JNull \<Rightarrow> Inl (Thrown TypeError)
      | JRef a \<Rightarrow>
          (case cell_at h a of
             Obj fs \<Rightarrow> (case map_of fs key of Some v \<Rightarrow> Inr v | None \<Rightarrow> Inr JUndefined)
           | Arr xs \<Rightarrow> Inr JUndefined)
      | _ \<Rightarrow> Inr JUndefined)"

text \<open>\<^verbatim>\<open>images.filter((img) => img.src)\<close>\<close>

fun filter_images :: "store \<Rightarrow> jsval list \<Rightarrow> failure + jsval list" where
  "filter_images h [] = Inr []"
| "filter_images h (img # rest) =
     (case image_field h img ''src'' of
        Inl e \<Rightarrow> Inl e
      | Inr src \<Rightarrow>
          (case filter_images h rest of
             Inl e \<Rightarrow> Inl e
           | Inr kept \<Rightarrow> Inr (if truthy src then img # kept else kept)))"

text \<open>\<^verbatim>\<open>img.src.startsWith('http') ? img.src : new URL(img.src, analysisResult.url).href\<close>;
  \<open>resolveURL ref base\<close> is \<^verbatim>\<open>new URL(ref, base).href\<close>, a parameter, with \<open>Inl TypeError\<close>
  where the constructor throws. A truthy \<^verbatim>\<open>src\<close> that is not a string has no method
  \<^verbatim>\<open>startsWith\<close>.\<close>

definition image_url :: "(string \<Rightarrow> string \<Rightarrow> error + string) \<Rightarrow> string \<Rightarrow> jsval \<Rightarrow> failure + string" where
  "image_url resolveURL base src =
     (case src of
        JStr s \<Rightarrow>
          (if startsWith s ''http'' then Inr s
           else (case resolveURL s base of Inl e \<Rightarrow> Inl (Thrown e) | Inr u \<Rightarrow> Inr u))
      | _ \<Rightarrow> Inl (Thrown TypeError))"

text \<open>The object the \<^verbatim>\<open>map\<close> callback returns for one image.\<close>

definition image_object ::
  "(string \<Rightarrow> string \<Rightarrow> error + string) \<Rightarrow> StoredResult \<Rightarrow> store \<Rightarrow> jsval \<Rightarrow> failure + cell" where
  "image_object resolveURL analysisResult h img =
     (case image_field h img ''src'' of
        Inl e \<Rightarrow> Inl e
      | Inr src \<Rightarrow>
          (case image_url resolveURL (stored_url analysisResult) src of
             Inl e \<Rightarrow> Inl e
           | Inr u \<Rightarrow>
               (case image_field h img ''alt'' of
                  Inl e \<Rightarrow> Inl e
                | Inr alt \<Rightarrow>
                    Inr (Obj [(''@type'', JStr ''ImageObject''),
                              (''url'', JStr u),
                              (''alt'', if truthy alt then alt
                                        else JStr (stored_title analysisResult))]))))"

fun map_images ::
  "(string \<Rightarrow> string \<Rightarrow> error + string) \<Rightarrow> StoredResult \<Rightarrow> jsval list \<Rightarrow> store
     \<Rightarrow> (failure + jsval list) \<times> store" where
  "map_images resolveURL analysisResult [] h = (Inr [], h)"
| "map_images resolveURL analysisResult (img # rest) h =
     (case image_object resolveURL analysisResult h img of
        Inl e \<Rightarrow> (Inl e, h)
      | Inr c \<Rightarrow>
          (case alloc c h of
             (a, h1) \<Rightarrow>
               (case map_images resolveURL analysisResult rest h1 of
                  (Inl e, h2) \<Rightarrow> (Inl e, h2)
                | (Inr refs, h2) \<Rightarrow> (Inr (JRef a # refs), h2))))"

text \<open>\<^verbatim>\<open>if (analysisResult.scrapedData.images.length > 0) { schema.image = ...; }\<close>\<close>

definition add_images ::
  "(string \<Rightarrow> string \<Rightarrow> error + string) \<Rightarrow> StoredResult \<Rightarrow> (string \<times> jsval) list \<Rightarrow> store
     \<Rightarrow> (failure + (string \<times> jsval) list) \<times> store" where
  "add_images resolveURL analysisResult schema h =
     (case cell_at h (stored_images analysisResult) of
        Obj fs \<Rightarrow> (Inl Unmodelled, h)
      | Arr imgs \<Rightarrow>
          (if length imgs > 0 then
             (case filter_images h imgs of
                Inl e \<Rightarrow> (Inl e, h)
              | Inr kept \<Rightarrow>
                  (case map_images resolveURL analysisResult kept h of
                     (Inl e, h1) \<Rightarrow> (Inl e, h1)
                   | (Inr refs, h1) \<Rightarrow>
                       (case alloc (Arr refs) h1 of
                          (a, h2) \<Rightarrow> (Inr (AList.update ''image'' (JRef a) schema), h2))))
           else (Inr schema, h)))"

subsection \<open>Custom properties\<close>

text \<open>
  \<^verbatim>\<open>Object.assign(schema, customProperties)\<close> assigns every own enumerable property of the
  source. An assignment to \<^verbatim>\<open>__proto__\<close> reaches the setter of \<^verbatim>\<open>Object.prototype\<close>: it
  creates no property, ignores a primitive value, and replaces the prototype when the value
  is an object or \<^verbatim>\<open>null\<close>.
\<close>

definition assign_prop :: "(string \<times> jsval) list \<Rightarrow> string \<times> jsval \<Rightarrow> failure + (string \<times> jsval) list" where
  "assign_prop schema kv =
     (case kv of
        (key, v) \<Rightarrow>
          (if key = ''__proto__'' then
             (case v of
                JRef a \<Rightarrow> Inl Unmodelled
              | JNull \<Rightarrow> Inl Unmodelled
              | _ \<Rightarrow> Inr schema)
           else Inr (AList.update key v schema)))"

fun object_assign :: "(string \<times> jsval) list \<Rightarrow> (string \<times> jsval) list \<Rightarrow> failure + (string \<times> jsval) list" where
  "object_assign schema [] = Inr schema"
| "object_assign schema (kv # rest) =
     (case assign_prop schema kv of
        Inl e \<Rightarrow> Inl e
      | Inr schema' \<Rightarrow> object_assign schema' rest)"

subsection \<open>Nested schemas\<close>

text \<open>\<^verbatim>\<open>{ "@type": nested.type, ...nested.properties }\<close>\<close>

definition spread_nested :: "store \<Rightarrow> NestedSchema \<Rightarrow> (string \<times> jsval) list" where
  "spread_nested h nested =
     foldl (\<lambda>fs kv. AList.update (fst kv) (snd kv) fs)
       [(''@type'', JStr (nested_type nested))]
       (own_props h (nested_properties nested))"

text \<open>\<^verbatim>\<open>if (typeof nestedSchema[key] === 'string' && nestedSchema[key].startsWith('/'))
  nestedSchema[key] = new URL(nestedSchema[key], analysisResult.url).href;\<close>\<close>

definition absolutize :: "(string \<Rightarrow> string \<Rightarrow> error + string) \<Rightarrow> string \<Rightarrow> string \<times> jsval \<Rightarrow> failure + string \<times> jsval" where
  "absolutize resolveURL base kv =
     (case kv of
        (key, JStr s) \<Rightarrow>
          (if startsWith s ''/'' then
             (case resolveURL s base of Inl e \<Rightarrow> Inl (Thrown e) | Inr u \<Rightarrow> Inr (key, JStr u))
           else Inr (key, JStr s))
      | (key, v) \<Rightarrow> Inr (key, v))"

fun absolutize_all ::
  "(string \<Rightarrow> string \<Rightarrow> error + string) \<Rightarrow> string \<Rightarrow> (string \<times> jsval) list
     \<Rightarrow> failure + (string \<times> jsval) list" where
  "absolutize_all resolveURL base [] = Inr []"
| "absolutize_all resolveURL base (kv # rest) =
     (case absolutize resolveURL base kv of
        Inl e \<Rightarrow> Inl e
      | Inr kv' \<Rightarrow>
          (case absolutize_all resolveURL base rest of
             Inl e \<Rightarrow> Inl e
           | Inr rest' \<Rightarrow> Inr (kv' # rest')))"

text \<open>\<^verbatim>\<open>arr.push(x)\<close>: an array takes the element; any other value has no method
  \<^verbatim>\<open>push\<close>.\<close>

definition push_value :: "store \<Rightarrow> jsval \<Rightarrow> jsval \<Rightarrow> failure + store" where
  "push_value h arr x =
     (case arr of
        JRef a \<Rightarrow>
          (case cell_at h a of
             Arr xs \<Rightarrow> Inr (h[a := Arr (xs @ [x])])
           | Obj fs \<Rightarrow> Inl (Thrown TypeError))
      | _ \<Rightarrow> Inl (Thrown TypeError))"

text \<open>\<^verbatim>\<open>if (!schema[nested.context]) { schema[nested.context] = []; }\<close>\<close>

definition ensure_array :: "(string \<times> jsval) list \<Rightarrow> string \<Rightarrow> store \<Rightarrow> (string \<times> jsval) list \<times> store" where
  "ensure_array schema key h =
     (if \<not> truthy (get_prop schema key) then
        (case alloc (Arr []) h of (a, h1) \<Rightarrow> (AList.update key (JRef a) schema, h1))
      else (schema, h))"

text \<open>One round of \<^verbatim>\<open>nestedSchemas.forEach\<close>.\<close>

definition add_nested ::
  "(string \<Rightarrow> string \<Rightarrow> error + string) \<Rightarrow> StoredResult \<Rightarrow> (string \<times> jsval) list \<Rightarrow> NestedSchema
     \<Rightarrow> store \<Rightarrow> (failure + (string \<times> jsval) list) \<times> store" where
  "add_nested resolveURL analysisResult schema nested h =
     (case ensure_array schema (nested_context nested) h of
        (schema1, h1) \<Rightarrow>
          (case absolutize_all resolveURL (stored_url analysisResult) (spread_nested h1 nested) of
             Inl e \<Rightarrow> (Inl e, h1)
           | Inr nestedSchema \<Rightarrow>
               (case alloc (Obj nestedSchema) h1 of
                  (a, h2) \<Rightarrow>
                    (case push_value h2 (get_prop schema1 (nested_context nested)) (JRef a) of
                       Inl e \<Rightarrow> (Inl e, h2)
                     | Inr h3 \<Rightarrow> (Inr schema1, h3)))))"

fun add_all_nested ::
  "(string \<Rightarrow> string \<Rightarrow> error + string) \<Rightarrow> StoredResult \<Rightarrow> (string \<times> jsval) list
     \<Rightarrow> NestedSchema list \<Rightarrow> store \<Rightarrow> (failure + (string \<times> jsval) list) \<times> store" where
  "add_all_nested resolveURL analysisResult schema [] h = (Inr schema, h)"
| "add_all_nested resolveURL analysisResult schema (nested # rest) h =
     (case add_nested resolveURL analysisResult schema nested h of
        (Inl e, h1) \<Rightarrow> (Inl e, h1)
      | (Inr schema1, h1) \<Rightarrow> add_all_nested resolveURL analysisResult schema1 rest h1)"

subsection \<open>The document\<close>

text \<open>Everything before the final pass: the base structure, the description, the images,
  the custom properties and the nested schemas.\<close>

definition base_schema :: "StoredResult \<Rightarrow> string \<Rightarrow> (string \<times> jsval) list" where
  "base_schema analysisResult mainSchema =
     (let schema = [(''@context'', JStr ''https://schema.org''),
                    (''@type'', JStr mainSchema),
                    (''name'', JStr (stored_title analysisResult)),
                    (''url'', JStr (stored_url analysisResult))]
      in (case stored_description analysisResult of
            Some d \<Rightarrow> (if d \<noteq> [] then AList.update ''description'' (JStr d) schema else schema)
          | None \<Rightarrow> schema))"

definition build_schema ::
  "(string \<Rightarrow> string \<Rightarrow> error + string) \<Rightarrow> StoredResult \<Rightarrow> string \<Rightarrow> NestedSchema list \<Rightarrow> jsval
     \<Rightarrow> store \<Rightarrow> (failure + (string \<times> jsval) list) \<times> store" where
  "build_schema resolveURL analysisResult mainSchema nestedSchemas customProperties h =
     (case add_images resolveURL analysisResult (base_schema analysisResult mainSchema) h of
        (Inl e, h1) \<Rightarrow> (Inl e, h1)
      | (Inr schema1, h1) \<Rightarrow>
          (case object_assign schema1 (own_props h1 customProperties) of
             Inl e \<Rightarrow> (Inl e, h1)
           | Inr schema2 \<Rightarrow>
               add_all_nested resolveURL analysisResult schema2 nestedSchemas h1))"

text \<open>\<^verbatim>\<open>if (Array.isArray(schema[key]) && schema[key].length === 1) schema[key] = schema[key][0];\<close>\<close>

definition collapse_value :: "store \<Rightarrow> jsval \<Rightarrow> jsval" where
  "collapse_value h v =
     (case v of
        JRef a \<Rightarrow> (case cell_at h a of Arr [x] \<Rightarrow> x | _ \<Rightarrow> v)
      | _ \<Rightarrow> v)"

definition collapse_singletons :: "store \<Rightarrow> (string \<times> jsval) list \<Rightarrow> (string \<times> jsval) list" where
  "collapse_singletons h schema = map (\<lambda>kv. (fst kv, collapse_value h (snd kv))) schema"

text \<open>The result is the document's own properties, with the store the call leaves behind.
  Property order is insertion order; no statement below depends on it.\<close>

definition generateSchemaMarkup ::
  "(string \<Rightarrow> string \<Rightarrow> error + string) \<Rightarrow> StoredResult \<Rightarrow> string \<Rightarrow> NestedSchema list \<Rightarrow> jsval
     \<Rightarrow> store \<Rightarrow> (failure + (string \<times> jsval) list) \<times> store" where
  "generateSchemaMarkup resolveURL analysisResult mainSchema nestedSchemas customProperties h =
     (case build_schema resolveURL analysisResult mainSchema nestedSchemas customProperties h of
        (Inl e, h1) \<Rightarrow> (Inl e, h1)
      | (Inr schema, h1) \<Rightarrow> (Inr (collapse_singletons h1 schema), h1))"

subsection \<open>URLs\<close>




text \<open>
  A resolver for the examples. On a base of the form \<^verbatim>\<open>http://host/path\<close> or
  \<^verbatim>\<open>https://host/path\<close> (lower case, no port, credentials, query or fragment) and a
  reference that is an absolute path or a relative path, both free of dot segments and of
  characters that need escaping, \<^verbatim>\<open>new URL(ref, base).href\<close> is the origin of the base
  followed by the reference, or by the directory of the base path and the reference. The
  definition is evaluated on such inputs only.
\<close>

definition http_resolve :: "string \<Rightarrow> string \<Rightarrow> error + string" where
  "http_resolve ref base =
     (let rest = (if startsWith base ''https://'' then drop 8 base
                  else if startsWith base ''http://'' then drop 7 base
                  else []);
          host = takeWhile (\<lambda>c. c \<noteq> CHR ''/'') rest;
          origin = take (length base - length rest) base @ host;
          path = dropWhile (\<lambda>c. c \<noteq> CHR ''/'') rest;
          dir = rev (dropWhile (\<lambda>c. c \<noteq> CHR ''/'') (rev path))
      in if host = [] then Inl TypeError
         else if startsWith ref ''/'' then Inr (origin @ ref)
         else Inr (origin @ (if dir = [] then ''/'' else dir) @ ref))"

section \<open>Notions used by the statements\<close>




text \<open>What \<^verbatim>\<open>JSON.parse\<close> makes of one script block, \<open>None\<close> when it throws.\<close>

definition parsed_block :: "(string \<Rightarrow> error + 'j) \<Rightarrow> node \<Rightarrow> 'j option" where
  "parsed_block JSON_parse el = (case JSON_parse (inner_html el) of Inr v \<Rightarrow> Some v | Inl e \<Rightarrow> None)"


definition direct_refs :: "store \<Rightarrow> jsval \<Rightarrow> nat set" where
  "direct_refs h v = {a. JRef a \<in> snd ` set (own_props h v)}"

section \<open>Sample inputs\<close>

text \<open>A stand-in for \<^verbatim>\<open>JSON.parse\<close> in the examples: it accepts a text in braces and
  returns it as it is.\<close>

definition sample_parse :: "string \<Rightarrow> error + string" where
  "sample_parse s =
     (if startsWith s ''{'' \<and> startsWith (rev s) ''}'' then Inr s else Inl SyntaxError)"

definition no_elements :: DetectedElements where
  "no_elements = \<lparr> hasVideo = False, hasImages = False, hasForms = False, hasNavigation = False,
     hasFooter = False, hasSidebar = False, hasComments = False, hasSearch = False,
     hasShoppingCart = False, hasUserAuth = False \<rparr>"

definition no_technical :: TechnicalDetails where
  "no_technical = \<lparr> framework = None, cms = None, analytics = [], socialMedia = [],
     paymentMethods = [] \<rparr>"

text \<open>A page with a React root and an Angular application, generated by WordPress with a
  Joomla bridge.\<close>

definition react_angular_page :: document where
  "react_angular_page =
     [Element ''html'' []
        [Element ''head'' []
           [Element ''meta'' [(''name'', ''generator''), (''content'', ''WordPress 6.4 with Joomla bridge'')] []],
         Element ''body'' []
           [Element ''div'' [(''id'', ''root''), (''data-reactroot'', [])] [],
            Element ''div'' [(''ng-app'', ''legacy'')] []]]]"

text \<open>A page with an article and a price.\<close>

definition shop_blog_page :: document where
  "shop_blog_page =
     [Element ''body'' []
        [Element ''article'' [(''class'', ''post'')] [Text ''Hello''],
         Element ''span'' [(''class'', ''price'')] [Text ''10'']]]"

text \<open>A page whose only class is \<^verbatim>\<open>topic-list\<close>.\<close>

definition topic_page :: document where
  "topic_page = [Element ''body'' [] [Element ''ul'' [(''class'', ''topic-list'')] []]]"

text \<open>Two scripts that call \<^verbatim>\<open>gtag\<close>; an image of the Stripe badge with a Stripe class.\<close>

definition two_gtag_page :: document where
  "two_gtag_page =
     [Element ''head'' []
        [Element ''script'' [] [Text ''gtag(1)''],
         Element ''script'' [] [Text ''gtag(2)'']]]"

definition stripe_badge_page :: document where
  "stripe_badge_page =
     [Element ''body'' []
        [Element ''img'' [(''src'', ''/img/stripe.png''), (''class'', ''stripe-badge'')] []]]"

text \<open>A form, a button of class \<^verbatim>\<open>add-to-cart\<close> and a link to \<^verbatim>\<open>checkout.stripe.com\<close>, and
  nothing else that the detectors look for.\<close>

definition stripe_link_page :: document where
  "stripe_link_page =
     [Element ''html'' []
        [Element ''body'' []
           [Element ''form'' [(''action'', ''/subscribe'')] [Element ''input'' [(''type'', ''email'')] []],
            Element ''button'' [(''class'', ''add-to-cart'')] [Text ''Add''],
            Element ''a'' [(''href'', ''https://checkout.stripe.com/pay/123'')] [Text ''Pay now'']]]]"

text \<open>The same three elements on a page that also names Stripe in a class and a shop in its
  text.\<close>

definition stripe_shop_page :: document where
  "stripe_shop_page =
     [Element ''body'' []
        [Element ''form'' [] [],
         Element ''button'' [(''class'', ''add-to-cart stripe-button'')] [Text ''Shop now''],
         Element ''a'' [(''href'', ''https://checkout.stripe.com/pay/123'')] []]]"

text \<open>Four script blocks: two well-formed structured-data blocks, a malformed one between
  them, and a script of another type.\<close>

definition ld_json_page :: document where
  "ld_json_page =
     [Element ''head'' []
        [Element ''script'' [(''type'', ''application/ld+json'')] [Text ''{first}''],
         Element ''script'' [(''type'', ''application/ld+json'')] [Text ''{broken''],
         Element ''script'' [(''type'', ''text/javascript'')] [Text ''{other}''],
         Element ''script'' [(''type'', ''application/ld+json'')] [Text ''{second}'']]]"

text \<open>An analysis result with one image, a nested offer, and custom properties whose
  \<^verbatim>\<open>offers\<close> is an array of the request.\<close>

definition sample_result :: StoredResult where
  "sample_result = \<lparr> stored_url = ''https://x.test/page'', stored_title = ''Shop'',
     stored_description = Some ''A shop'', stored_images = 0 \<rparr>"

definition offer_schema :: NestedSchema where
  "offer_schema = \<lparr> nested_type = ''Offer'', nested_context = ''offers'', nested_properties = JRef 2 \<rparr>"

definition shared_store :: store where
  "shared_store =
     [Arr [JRef 1],
      Obj [(''src'', JStr ''/img.png''), (''alt'', JStr ''Logo'')],
      Obj [(''price'', JStr ''10'')],
      Obj [(''offers'', JRef 4)],
      Arr []]"


text \<open>The object written for one image.\<close>

definition image_cell :: "string \<Rightarrow> jsval \<Rightarrow> cell" where
  "image_cell u alt = Obj [(''@type'', JStr ''ImageObject''), (''url'', JStr u), (''alt'', alt)]"





definition two_image_store :: store where
  "two_image_store =
     [Arr [JRef 1, JRef 4],
      Obj [(''src'', JStr ''/img.png'')],
      Obj [(''price'', JStr ''10'')],
      Obj [],
      Obj [(''src'', JStr ''https://cdn.test/b.png''), (''alt'', JStr ''B'')]]"



section \<open>Facts about selectors and the sample pages\<close>

lemmas sel_defs = select_def present_def is_tag_def has_attr_def attr_contains_def attr_equals_def
  attr_equals_nocase_def attr_def has_class_def class_words_def first_attr_def
  tag_present_def class_present_def class_part_present_def id_part_present_def
  link_to_def img_from_def script_from_def

lemma react_angular_page_elements:
  "all_elements react_angular_page =
     [Element ''html'' []
        [Element ''head'' []
           [Element ''meta'' [(''name'', ''generator''), (''content'', ''WordPress 6.4 with Joomla bridge'')] []],
         Element ''body'' []
           [Element ''div'' [(''id'', ''root''), (''data-reactroot'', [])] [],
            Element ''div'' [(''ng-app'', ''legacy'')] []]],
      Element ''head'' []
           [Element ''meta'' [(''name'', ''generator''), (''content'', ''WordPress 6.4 with Joomla bridge'')] []],
      Element ''meta'' [(''name'', ''generator''), (''content'', ''WordPress 6.4 with Joomla bridge'')] [],
      Element ''body'' []
           [Element ''div'' [(''id'', ''root''), (''data-reactroot'', [])] [],
            Element ''div'' [(''ng-app'', ''legacy'')] []],
      Element ''div'' [(''id'', ''root''), (''data-reactroot'', [])] [],
      Element ''div'' [(''ng-app'', ''legacy'')] []]"
  by (simp add: react_angular_page_def all_elements_def)

lemma shop_blog_page_elements:
  "all_elements shop_blog_page =
     [Element ''body'' []
        [Element ''article'' [(''class'', ''post'')] [Text ''Hello''],
         Element ''span'' [(''class'', ''price'')] [Text ''10'']],
      Element ''article'' [(''class'', ''post'')] [Text ''Hello''],
      Element ''span'' [(''class'', ''price'')] [Text ''10'']]"
  by (simp add: shop_blog_page_def all_elements_def)

lemma topic_page_elements:
  "all_elements topic_page =
     [Element ''body'' [] [Element ''ul'' [(''class'', ''topic-list'')] []],
      Element ''ul'' [(''class'', ''topic-list'')] []]"
  by (simp add: topic_page_def all_elements_def)

lemma stripe_link_page_elements:
  "all_elements stripe_link_page =
     [Element ''html'' []
        [Element ''body'' []
           [Element ''form'' [(''action'', ''/subscribe'')] [Element ''input'' [(''type'', ''email'')] []],
            Element ''button'' [(''class'', ''add-to-cart'')] [Text ''Add''],
            Element ''a'' [(''href'', ''https://checkout.stripe.com/pay/123'')] [Text ''Pay now'']]],
      Element ''body'' []
           [Element ''form'' [(''action'', ''/subscribe'')] [Element ''input'' [(''type'', ''email'')] []],
            Element ''button'' [(''class'', ''add-to-cart'')] [Text ''Add''],
            Element ''a'' [(''href'', ''https://checkout.stripe.com/pay/123'')] [Text ''Pay now'']],
      Element ''form'' [(''action'', ''/subscribe'')] [Element ''input'' [(''type'', ''email'')] []],
      Element ''input'' [(''type'', ''email'')] [],
      Element ''button'' [(''class'', ''add-to-cart'')] [Text ''Add''],
      Element ''a'' [(''href'', ''https://checkout.stripe.com/pay/123'')] [Text ''Pay now'']]"
  by (simp add: stripe_link_page_def all_elements_def)

lemma stripe_shop_page_elements:
  "all_elements stripe_shop_page =
     [Element ''body'' []
        [Element ''form'' [] [],
         Element ''button'' [(''class'', ''add-to-cart stripe-button'')] [Text ''Shop now''],
         Element ''a'' [(''href'', ''https://checkout.stripe.com/pay/123'')] []],
      Element ''form'' [] [],
      Element ''button'' [(''class'', ''add-to-cart stripe-button'')] [Text ''Shop now''],
      Element ''a'' [(''href'', ''https://checkout.stripe.com/pay/123'')] []]"
  by (simp add: stripe_shop_page_def all_elements_def)

section \<open>Framework and CMS\<close>

lemma detect_framework_last:
  "detect_framework doc =
     (if angular_rule doc then Some ''Angular''
      else if vue_rule doc then Some ''Vue.js''
      else if react_rule doc then Some ''React''
      else None)"
  by (simp add: detect_framework_def Let_def)

lemma detect_cms_last:
  "detect_cms doc =
     (if generator_includes ''Joomla'' doc then Some ''Joomla''
      else if generator_includes ''Drupal'' doc then Some ''Drupal''
      else if generator_includes ''WordPress'' doc then Some ''WordPress''
      else None)"
  by (simp add: detect_cms_def Let_def)

text \<open>
  Claim C1, as the code has it. The three framework tests run in the order React, Vue,
  Angular and the three CMS tests in the order WordPress, Drupal, Joomla, each a statement
  of its own that assigns the label when its test holds. So the last test that holds gives
  the label: Angular before Vue before React, Joomla before Drupal before WordPress, and no
  label when none holds. At most one label each is recorded.
\<close>

theorem framework_cms_last_match:
  "framework (detectTechnicalDetails doc) =
     (if angular_rule doc then Some ''Angular''
      else if vue_rule doc then Some ''Vue.js''
      else if react_rule doc then Some ''React''
      else None)
   \<and> cms (detectTechnicalDetails doc) =
     (if generator_includes ''Joomla'' doc then Some ''Joomla''
      else if generator_includes ''Drupal'' doc then Some ''Drupal''
      else if generator_includes ''WordPress'' doc then Some ''WordPress''
      else None)"
  by (simp add: detectTechnicalDetails_def detect_framework_last detect_cms_last)

theorem framework_cms_last_match_witness:
  "framework (detectTechnicalDetails react_angular_page) = Some ''Angular''
   \<and> cms (detectTechnicalDetails react_angular_page) = Some ''Joomla''"
proof -
  have a: "angular_rule react_angular_page"
    by (simp add: angular_rule_def sel_defs react_angular_page_elements)
  have j: "generator_includes ''Joomla'' react_angular_page"
    by (simp add: generator_includes_def sel_defs react_angular_page_elements)
  from framework_cms_last_match [of react_angular_page] a j show ?thesis by simp
qed

text \<open>
  Claim C1 as stated fails: on a page that matches the React rule and the Angular rule the
  recorded framework is Angular, the later rule, and on a page whose generator names
  WordPress and Joomla the recorded CMS is Joomla.
\<close>

theorem framework_first_match_counterexample:
  "react_rule react_angular_page \<and> angular_rule react_angular_page
   \<and> framework (detectTechnicalDetails react_angular_page) = Some ''Angular''
   \<and> generator_includes ''WordPress'' react_angular_page
   \<and> generator_includes ''Joomla'' react_angular_page
   \<and> cms (detectTechnicalDetails react_angular_page) = Some ''Joomla''"
proof -
  have r: "react_rule react_angular_page"
    by (simp add: react_rule_def sel_defs react_angular_page_elements)
  have a: "angular_rule react_angular_page"
    by (simp add: angular_rule_def sel_defs react_angular_page_elements)
  have w: "generator_includes ''WordPress'' react_angular_page"
    by (simp add: generator_includes_def sel_defs react_angular_page_elements)
  have j: "generator_includes ''Joomla'' react_angular_page"
    by (simp add: generator_includes_def sel_defs react_angular_page_elements)
  show ?thesis
    using r a w j
    by (simp add: detectTechnicalDetails_def detect_framework_last detect_cms_last)
qed

section \<open>The classifier\<close>

lemma first_match_index:
  "i < length rs \<Longrightarrow> fst (rs ! i) doc e t u \<Longrightarrow> (\<forall>j<i. \<not> fst (rs ! j) doc e t u)
     \<Longrightarrow> first_match rs doc e t u = snd (rs ! i)"
proof (induction rs arbitrary: i)
  case Nil
  then show ?case by simp
next
  case (Cons r rs)
  obtain c l where r: "r = (c, l)" by (cases r)
  show ?case
  proof (cases i)
    case 0
    then show ?thesis using Cons.prems r by simp
  next
    case (Suc k)
    have "\<not> c doc e t u" using Cons.prems(3) Suc r by auto
    moreover have "\<forall>j<k. \<not> fst (rs ! j) doc e t u"
    proof (intro allI impI)
      fix j assume "j < k"
      then have "Suc j < i" using Suc by simp
      then have "\<not> fst ((r # rs) ! Suc j) doc e t u" using Cons.prems(3) by blast
      then show "\<not> fst (rs ! j) doc e t u" by simp
    qed
    then have "first_match rs doc e t u = snd (rs ! k)"
      using Cons.IH [of k] Cons.prems(1,2) Suc by simp
    ultimately show ?thesis using r Suc by simp
  qed
qed

lemma first_match_none:
  "(\<forall>j<length rs. \<not> fst (rs ! j) doc e t u) \<Longrightarrow> first_match rs doc e t u = unknown"
proof (induction rs)
  case Nil
  then show ?case by simp
next
  case (Cons r rs)
  obtain c l where r: "r = (c, l)" by (cases r)
  have "\<not> c doc e t u" using Cons.prems r by auto
  moreover have "\<forall>j<length rs. \<not> fst (rs ! j) doc e t u"
  proof (intro allI impI)
    fix j assume "j < length rs"
    then have "Suc j < length (r # rs)" by simp
    then have "\<not> fst ((r # rs) ! Suc j) doc e t u" using Cons.prems by blast
    then show "\<not> fst (rs ! j) doc e t u" by simp
  qed
  then have "first_match rs doc e t u = unknown"
    using Cons.IH by simp
  ultimately show ?case using r by simp
qed

lemma determineWebsiteType_first_match:
  "determineWebsiteType doc e t u = first_match priority_rules doc e t u"
  by (simp add: determineWebsiteType_def priority_rules_def)

text \<open>
  Claim C2. The classifier is the first-match evaluation of the list of rules in the order
  ecommerce, blog, news, portfolio, social_media, forum, documentation, saas, educational,
  entertainment, government, nonprofit, landing_page, corporate: the first rule whose
  condition holds gives the type, and when no condition holds the type is unknown. In
  particular an input that satisfies the ecommerce condition and the blog condition is
  classified ecommerce.
\<close>

theorem classifier_priority_order:
  "determineWebsiteType doc e t u = first_match priority_rules doc e t u
   \<and> map snd priority_rules =
       [ecommerce, blog, news, portfolio, social_media, forum, documentation, saas,
        educational, entertainment, government, nonprofit, landing_page, corporate]
   \<and> (\<forall>i. i < length priority_rules \<and> fst (priority_rules ! i) doc e t u
            \<and> (\<forall>j<i. \<not> fst (priority_rules ! j) doc e t u)
          \<longrightarrow> determineWebsiteType doc e t u = snd (priority_rules ! i))
   \<and> ((\<forall>j<length priority_rules. \<not> fst (priority_rules ! j) doc e t u)
          \<longrightarrow> determineWebsiteType doc e t u = unknown)
   \<and> (ecommerce_cond doc e t u \<and> blog_cond doc e t u
          \<longrightarrow> determineWebsiteType doc e t u = ecommerce)"
proof -
  have a: "map snd priority_rules =
       [ecommerce, blog, news, portfolio, social_media, forum, documentation, saas,
        educational, entertainment, government, nonprofit, landing_page, corporate]"
    by (simp add: priority_rules_def)
  have b: "ecommerce_cond doc e t u \<Longrightarrow> determineWebsiteType doc e t u = ecommerce"
    by (simp add: determineWebsiteType_def)
  show ?thesis
    using a b first_match_index [of _ priority_rules doc e t u]
      first_match_none [of priority_rules doc e t u]
    by (simp add: determineWebsiteType_first_match)
qed

theorem classifier_priority_order_witness:
  "ecommerce_cond shop_blog_page no_elements no_technical ''https://x.test/''
   \<and> blog_cond shop_blog_page no_elements no_technical ''https://x.test/''
   \<and> determineWebsiteType shop_blog_page no_elements no_technical ''https://x.test/'' = ecommerce"
proof -
  have e: "ecommerce_cond shop_blog_page no_elements no_technical ''https://x.test/''"
    by (simp add: ecommerce_cond_def sel_defs shop_blog_page_elements isSpace_def)
  have b: "blog_cond shop_blog_page no_elements no_technical ''https://x.test/''"
    by (simp add: blog_cond_def sel_defs shop_blog_page_elements)
  from classifier_priority_order [of shop_blog_page no_elements no_technical "''https://x.test/''"] e b
  show ?thesis by blast
qed

text \<open>
  Claim C10. In the forum rule the conjunction of hasComments and hasUserAuth is joined to
  the test for the class word \<^verbatim>\<open>thread\<close> alone. So on every page on which none of the
  rules before it holds, an element whose class contains \<^verbatim>\<open>thread\<close> or \<^verbatim>\<open>topic\<close>, or has the
  class word \<^verbatim>\<open>topic\<close>, makes the type forum, whatever the two flags are.
\<close>

theorem forum_guard_scope:
  assumes "\<not> ecommerce_cond doc e t u" and "\<not> blog_cond doc e t u" and "\<not> news_cond doc e t u"
    and "\<not> portfolio_cond doc e t u" and "\<not> social_media_cond doc e t u"
    and "class_part_present ''thread'' doc \<or> class_part_present ''topic'' doc
         \<or> class_present ''topic'' doc"
  shows "determineWebsiteType doc e t u = forum"
  using assms by (auto simp: determineWebsiteType_def forum_cond_def)

theorem forum_guard_scope_witness:
  "\<not> hasComments (detectElements topic_page) \<and> \<not> hasUserAuth (detectElements topic_page)
   \<and> determineWebsiteType topic_page (detectElements topic_page) (detectTechnicalDetails topic_page)
        ''https://x.test/'' = forum"
proof -
  have de: "detectElements topic_page = no_elements"
    by (simp add: detectElements_def no_elements_def sel_defs topic_page_elements isSpace_def)
  have dt: "detectTechnicalDetails topic_page = no_technical"
    by (simp add: detectTechnicalDetails_def no_technical_def detect_framework_last detect_cms_last
        react_rule_def vue_rule_def angular_rule_def generator_includes_def detect_analytics_def
        detect_socialMedia_def detect_paymentMethods_def push_if_def sel_defs topic_page_elements)
  have h1: "\<not> ecommerce_cond topic_page no_elements no_technical ''https://x.test/''"
    by (simp add: ecommerce_cond_def no_elements_def no_technical_def sel_defs topic_page_elements isSpace_def)
  have h2: "\<not> blog_cond topic_page no_elements no_technical ''https://x.test/''"
    by (simp add: blog_cond_def sel_defs topic_page_elements isSpace_def)
  have h3: "\<not> news_cond topic_page no_elements no_technical ''https://x.test/''"
    by (simp add: news_cond_def sel_defs topic_page_elements isSpace_def)
  have h4: "\<not> portfolio_cond topic_page no_elements no_technical ''https://x.test/''"
    by (simp add: portfolio_cond_def sel_defs topic_page_elements isSpace_def)
  have h5: "\<not> social_media_cond topic_page no_elements no_technical ''https://x.test/''"
    by (simp add: social_media_cond_def no_elements_def)
  have h6: "class_part_present ''thread'' topic_page \<or> class_part_present ''topic'' topic_page
         \<or> class_present ''topic'' topic_page"
    by (simp add: sel_defs topic_page_elements)
  have "determineWebsiteType topic_page no_elements no_technical ''https://x.test/'' = forum"
    by (rule forum_guard_scope [OF h1 h2 h3 h4 h5 h6])
  then show ?thesis by (simp add: de dt no_elements_def)
qed

section \<open>Analytics, social media and payment lists\<close>

lemma add_analytics_append: "add_analytics acc el = acc @ add_analytics [] el"
  by (simp add: add_analytics_def push_if_def Let_def)

lemma foldl_add_analytics:
  "foldl add_analytics acc els = acc @ concat (map (add_analytics []) els)"
proof (induction els arbitrary: acc)
  case Nil
  then show ?case by simp
next
  case (Cons el els)
  show ?case
    using Cons.IH [of "add_analytics acc el"] add_analytics_append [of acc el] by simp
qed

lemma socialMedia_distinct: "distinct (detect_socialMedia doc)"
  by (simp add: detect_socialMedia_def push_if_def Let_def)

lemma two_gtag_analytics:
  "detect_analytics two_gtag_page = [''Google Analytics'', ''Google Analytics'']"
  by (simp add: detect_analytics_def add_analytics_def push_if_def inner_html_def sel_defs
      two_gtag_page_def all_elements_def)

lemma stripe_badge_payments:
  "detect_paymentMethods stripe_badge_page = [''Stripe'', ''Stripe'']"
  by (simp add: detect_paymentMethods_def push_if_def sel_defs
      stripe_badge_page_def all_elements_def)

text \<open>
  Claim C4, as the code has it. The analytics list takes one entry for every script and
  every analytics rule the script matches, and the payment list one entry for each of its
  five rules that matches; neither is deduplicated, and for each of the two there is a page
  on which a label appears twice. The social media list takes one entry for each of its five
  rules that matches, and the five labels differ, so no label appears in it twice.
\<close>

theorem technical_lists_accumulation:
  "analytics (detectTechnicalDetails doc)
     = concat (map (add_analytics []) (select (is_tag ''script'') doc))
   \<and> paymentMethods (detectTechnicalDetails doc)
     = map snd (filter fst
         [(img_from ''stripe'' doc, ''Stripe''), (img_from ''paypal'' doc, ''PayPal''),
          (img_from ''square'' doc, ''Square''), (class_part_present ''stripe'' doc, ''Stripe''),
          (class_part_present ''paypal'' doc, ''PayPal'')])
   \<and> socialMedia (detectTechnicalDetails doc)
     = map snd (filter fst
         [(link_to ''facebook.com'' doc, ''Facebook''), (link_to ''twitter.com'' doc, ''Twitter''),
          (link_to ''linkedin.com'' doc, ''LinkedIn''), (link_to ''instagram.com'' doc, ''Instagram''),
          (link_to ''youtube.com'' doc, ''YouTube'')])
   \<and> distinct (socialMedia (detectTechnicalDetails doc))
   \<and> (\<exists>page. \<not> distinct (analytics (detectTechnicalDetails page)))
   \<and> (\<exists>page. \<not> distinct (paymentMethods (detectTechnicalDetails page)))"
proof -
  have a: "analytics (detectTechnicalDetails doc)
     = concat (map (add_analytics []) (select (is_tag ''script'') doc))"
    using foldl_add_analytics [of "[]"] by (simp add: detectTechnicalDetails_def detect_analytics_def)
  have p: "paymentMethods (detectTechnicalDetails doc)
     = map snd (filter fst
         [(img_from ''stripe'' doc, ''Stripe''), (img_from ''paypal'' doc, ''PayPal''),
          (img_from ''square'' doc, ''Square''), (class_part_present ''stripe'' doc, ''Stripe''),
          (class_part_present ''paypal'' doc, ''PayPal'')])"
    by (simp add: detectTechnicalDetails_def detect_paymentMethods_def push_if_def Let_def)
  have s: "socialMedia (detectTechnicalDetails doc)
     = map snd (filter fst
         [(link_to ''facebook.com'' doc, ''Facebook''), (link_to ''twitter.com'' doc, ''Twitter''),
          (link_to ''linkedin.com'' doc, ''LinkedIn''), (link_to ''instagram.com'' doc, ''Instagram''),
          (link_to ''youtube.com'' doc, ''YouTube'')])"
    by (simp add: detectTechnicalDetails_def detect_socialMedia_def push_if_def Let_def)
  have d: "distinct (socialMedia (detectTechnicalDetails doc))"
    by (simp add: detectTechnicalDetails_def socialMedia_distinct)
  have ea: "\<exists>page. \<not> distinct (analytics (detectTechnicalDetails page))"
    by (rule exI [of _ two_gtag_page]) (simp add: detectTechnicalDetails_def two_gtag_analytics)
  have ep: "\<exists>page. \<not> distinct (paymentMethods (detectTechnicalDetails page))"
    by (rule exI [of _ stripe_badge_page]) (simp add: detectTechnicalDetails_def stripe_badge_payments)
  show ?thesis using a p s d ea ep by blast
qed

theorem technical_lists_accumulation_witness:
  "analytics (detectTechnicalDetails two_gtag_page) = [''Google Analytics'', ''Google Analytics'']
   \<and> socialMedia (detectTechnicalDetails two_gtag_page) = []"
proof -
  have sel: "select (is_tag ''script'') two_gtag_page
      = [Element ''script'' [] [Text ''gtag(1)''], Element ''script'' [] [Text ''gtag(2)'']]"
    by (simp add: sel_defs two_gtag_page_def all_elements_def)
  have l: "\<not> link_to ''facebook.com'' two_gtag_page \<and> \<not> link_to ''twitter.com'' two_gtag_page
      \<and> \<not> link_to ''linkedin.com'' two_gtag_page \<and> \<not> link_to ''instagram.com'' two_gtag_page
      \<and> \<not> link_to ''youtube.com'' two_gtag_page"
    by (simp add: sel_defs two_gtag_page_def all_elements_def)
  from technical_lists_accumulation [of two_gtag_page] sel l show ?thesis
    by (simp add: add_analytics_def push_if_def inner_html_def)
qed

text \<open>
  Claim C4 as stated fails for the social media list: there is no page on which a label
  appears in it more than once.
\<close>

theorem socialMedia_duplicates_counterexample:
  "\<not> (\<exists>page. \<not> distinct (socialMedia (detectTechnicalDetails page)))"
  by (simp add: detectTechnicalDetails_def socialMedia_distinct)

section \<open>The form, cart and Stripe scenario\<close>

lemma stripe_link_text: "collect_text stripe_link_page = ''AddPay now''"
  by (simp add: collect_text_def selection_text_def sel_defs stripe_link_page_elements trim_def isSpace_def)

lemma stripe_link_elements: "detectElements stripe_link_page = no_elements \<lparr> hasForms := True \<rparr>"
  by (simp add: detectElements_def no_elements_def sel_defs stripe_link_page_elements isSpace_def
      lower_char_def toLowerCase_def)

lemma stripe_link_technical: "detectTechnicalDetails stripe_link_page = no_technical"
  by (simp add: detectTechnicalDetails_def no_technical_def detect_framework_last detect_cms_last
        react_rule_def vue_rule_def angular_rule_def generator_includes_def detect_analytics_def
        detect_socialMedia_def detect_paymentMethods_def push_if_def sel_defs stripe_link_page_elements)

lemma hasForms_iff: "hasForms (detectElements doc) = tag_present ''form'' doc"
  by (simp add: detectElements_def)

lemma Stripe_iff:
  "(''Stripe'' \<in> set (detect_paymentMethods doc))
     = (img_from ''stripe'' doc \<or> class_part_present ''stripe'' doc)"
  by (simp add: detect_paymentMethods_def push_if_def Let_def)

lemma paymentMethods_nonempty:
  "(length (detect_paymentMethods doc) > 0)
     = (img_from ''stripe'' doc \<or> img_from ''paypal'' doc \<or> img_from ''square'' doc
        \<or> class_part_present ''stripe'' doc \<or> class_part_present ''paypal'' doc)"
  by (simp add: detect_paymentMethods_def push_if_def Let_def)

lemma indicators_nonempty:
  "(indicators keys txt \<noteq> [])
     = list_ex (\<lambda>word. list_ex (str_includes word) keys) (split_ws (toLowerCase txt))"
  by (simp add: indicators_def filter_empty_conv list_ex_iff)

text \<open>
  Claim C3, as the code has it. On every page with a form element, hasForms is true. The
  class \<^verbatim>\<open>add-to-cart\<close> and the link to \<^verbatim>\<open>checkout.stripe.com\<close> decide none of the other
  three results: ecommerceIndicators is non-empty exactly when a word of the lower-cased
  body text contains one of the e-commerce keywords; paymentMethods contains Stripe exactly
  when the source of an image or a class attribute contains \<^verbatim>\<open>stripe\<close>; and the type is
  ecommerce exactly when a class word is \<^verbatim>\<open>cart\<close> or \<^verbatim>\<open>shopping-cart\<close>, an id contains
  \<^verbatim>\<open>cart\<close>, the source of an image contains \<^verbatim>\<open>stripe\<close>, \<^verbatim>\<open>paypal\<close> or \<^verbatim>\<open>square\<close>, or a class
  attribute contains \<^verbatim>\<open>stripe\<close>, \<^verbatim>\<open>paypal\<close>, \<^verbatim>\<open>product\<close> or \<^verbatim>\<open>price\<close>.
\<close>

theorem form_cart_stripe_scenario:
  assumes "tag_present ''form'' doc"
  shows "hasForms (detectedElements (analyzeWebsite JSON_parse parseInt u h doc))
   \<and> (ecommerceIndicators (scrapedData (analyzeWebsite JSON_parse parseInt u h doc)) \<noteq> []
        \<longleftrightarrow> list_ex (\<lambda>word. list_ex (str_includes word) ecommerce_words)
               (split_ws (toLowerCase (collect_text doc))))
   \<and> (''Stripe'' \<in> set (paymentMethods (technicalDetails (analyzeWebsite JSON_parse parseInt u h doc)))
        \<longleftrightarrow> img_from ''stripe'' doc \<or> class_part_present ''stripe'' doc)
   \<and> (websiteType (analyzeWebsite JSON_parse parseInt u h doc) = ecommerce
        \<longleftrightarrow> class_present ''cart'' doc \<or> class_present ''shopping-cart'' doc
            \<or> id_part_present ''cart'' doc
            \<or> img_from ''stripe'' doc \<or> img_from ''paypal'' doc \<or> img_from ''square'' doc
            \<or> class_part_present ''stripe'' doc \<or> class_part_present ''paypal'' doc
            \<or> class_present ''product'' doc \<or> class_part_present ''product'' doc
            \<or> class_present ''price'' doc \<or> class_part_present ''price'' doc)"
proof -
  have a: "hasForms (detectedElements (analyzeWebsite JSON_parse parseInt u h doc))"
    using assms by (simp add: analyzeWebsite_def Let_def hasForms_iff)
  have b: "ecommerceIndicators (scrapedData (analyzeWebsite JSON_parse parseInt u h doc)) \<noteq> []
        \<longleftrightarrow> list_ex (\<lambda>word. list_ex (str_includes word) ecommerce_words)
               (split_ws (toLowerCase (collect_text doc)))"
    by (simp add: analyzeWebsite_def collectScrapedData_def Let_def indicators_nonempty)
  have c: "''Stripe'' \<in> set (paymentMethods (technicalDetails (analyzeWebsite JSON_parse parseInt u h doc)))
        \<longleftrightarrow> img_from ''stripe'' doc \<or> class_part_present ''stripe'' doc"
    by (simp add: analyzeWebsite_def Let_def detectTechnicalDetails_def Stripe_iff)
  have e: "ecommerce_cond doc (detectElements doc) (detectTechnicalDetails doc) u
        \<longleftrightarrow> class_present ''cart'' doc \<or> class_present ''shopping-cart'' doc
            \<or> id_part_present ''cart'' doc
            \<or> img_from ''stripe'' doc \<or> img_from ''paypal'' doc \<or> img_from ''square'' doc
            \<or> class_part_present ''stripe'' doc \<or> class_part_present ''paypal'' doc
            \<or> class_present ''product'' doc \<or> class_part_present ''product'' doc
            \<or> class_present ''price'' doc \<or> class_part_present ''price'' doc"
    using paymentMethods_nonempty [of doc]
    by (simp add: ecommerce_cond_def detectElements_def detectTechnicalDetails_def)
  have d: "websiteType (analyzeWebsite JSON_parse parseInt u h doc) = ecommerce
        \<longleftrightarrow> ecommerce_cond doc (detectElements doc) (detectTechnicalDetails doc) u"
    by (simp add: analyzeWebsite_def Let_def determineWebsiteType_def)
  show ?thesis using a b c d e by blast
qed

theorem form_cart_stripe_scenario_witness:
  "hasForms (detectedElements (analyzeWebsite sample_parse (\<lambda>s. ()) ''https://x.test/'' [] stripe_shop_page))
   \<and> ecommerceIndicators (scrapedData (analyzeWebsite sample_parse (\<lambda>s. ()) ''https://x.test/'' [] stripe_shop_page)) \<noteq> []
   \<and> ''Stripe'' \<in> set (paymentMethods (technicalDetails (analyzeWebsite sample_parse (\<lambda>s. ()) ''https://x.test/'' [] stripe_shop_page)))
   \<and> websiteType (analyzeWebsite sample_parse (\<lambda>s. ()) ''https://x.test/'' [] stripe_shop_page) = ecommerce"
proof -
  have f: "tag_present ''form'' stripe_shop_page"
    by (simp add: sel_defs stripe_shop_page_elements)
  have t: "collect_text stripe_shop_page = ''Shop now''"
    by (simp add: collect_text_def selection_text_def sel_defs stripe_shop_page_elements trim_def isSpace_def)
  have w: "list_ex (\<lambda>word. list_ex (str_includes word) ecommerce_words)
               (split_ws (toLowerCase ''Shop now''))"
    by (simp add: ecommerce_words_def toLowerCase_def lower_char_def isSpace_def)
  have s: "class_part_present ''stripe'' stripe_shop_page"
    by (simp add: sel_defs stripe_shop_page_elements)
  from form_cart_stripe_scenario [OF f, of sample_parse "\<lambda>s. ()" "''https://x.test/''" "[]"] t w s
  show ?thesis by simp
qed

text \<open>
  Claim C3 as stated fails: the sample page has a form, an element of class
  \<^verbatim>\<open>add-to-cart\<close> and a link to \<^verbatim>\<open>checkout.stripe.com\<close>, and its e-commerce indicators are
  empty, its payment methods do not contain Stripe, and its type is unknown.
\<close>

theorem form_cart_stripe_counterexample:
  "tag_present ''form'' stripe_link_page
   \<and> present (\<lambda>el. attr el ''class'' = Some ''add-to-cart'') stripe_link_page
   \<and> present (\<lambda>el. is_tag ''a'' el \<and> attr_contains ''href'' ''checkout.stripe.com'' el) stripe_link_page
   \<and> hasForms (detectedElements (analyzeWebsite sample_parse (\<lambda>s. ())
         ''https://x.test/'' [] stripe_link_page))
   \<and> ecommerceIndicators (scrapedData (analyzeWebsite sample_parse (\<lambda>s. ())
         ''https://x.test/'' [] stripe_link_page)) = []
   \<and> ''Stripe'' \<notin> set (paymentMethods (technicalDetails (analyzeWebsite sample_parse (\<lambda>s. ())
         ''https://x.test/'' [] stripe_link_page)))
   \<and> websiteType (analyzeWebsite sample_parse (\<lambda>s. ())
         ''https://x.test/'' [] stripe_link_page) = unknown"
proof -
  have f: "tag_present ''form'' stripe_link_page"
    by (simp add: sel_defs stripe_link_page_elements)
  have c: "present (\<lambda>el. attr el ''class'' = Some ''add-to-cart'') stripe_link_page"
    by (simp add: sel_defs stripe_link_page_elements)
  have a: "present (\<lambda>el. is_tag ''a'' el \<and> attr_contains ''href'' ''checkout.stripe.com'' el) stripe_link_page"
    by (simp add: sel_defs stripe_link_page_elements)
  have e: "indicators ecommerce_words ''AddPay now'' = []"
    by (simp add: indicators_def ecommerce_words_def toLowerCase_def lower_char_def isSpace_def)
  have w: "determineWebsiteType stripe_link_page (no_elements \<lparr> hasForms := True \<rparr>) no_technical
             ''https://x.test/'' = unknown"
    by (simp add: determineWebsiteType_def ecommerce_cond_def blog_cond_def news_cond_def
        portfolio_cond_def social_media_cond_def forum_cond_def documentation_cond_def
        saas_cond_def educational_cond_def entertainment_cond_def government_cond_def
        nonprofit_cond_def landing_page_cond_def corporate_cond_def
        no_elements_def no_technical_def sel_defs stripe_link_page_elements isSpace_def)
  show ?thesis
    using f c a e w
    by (simp add: analyzeWebsite_def collectScrapedData_def Let_def stripe_link_text
        stripe_link_elements stripe_link_technical no_technical_def)
qed

section \<open>Classes\<close>








section \<open>Structured data\<close>

lemma add_structured_eq:
  assumes "JSON_parse [] = Inl SyntaxError"
  shows "add_structured JSON_parse acc el
           = acc @ (case parsed_block JSON_parse el of Some v \<Rightarrow> [v] | None \<Rightarrow> [])"
  using assms
  by (cases "inner_html el = []")
     (simp_all add: add_structured_def try_push_def parsed_block_def Let_def split: sum.splits)

lemma foldl_add_structured:
  assumes "JSON_parse [] = Inl SyntaxError"
  shows "foldl (add_structured JSON_parse) acc els = acc @ List.map_filter (parsed_block JSON_parse) els"
proof (induction els arbitrary: acc)
  case Nil
  then show ?case by (simp add: map_filter_simps)
next
  case (Cons el els)
  show ?case
    using Cons.IH [of "add_structured JSON_parse acc el"] add_structured_eq [of JSON_parse acc el] assms
    by (simp add: map_filter_simps split: option.splits)
qed

text \<open>
  Claim C8. The extraction is a total function: the only step that can throw is
  \<^verbatim>\<open>JSON.parse\<close>, inside the \<^verbatim>\<open>try\<close> block. With a parser that, like \<^verbatim>\<open>JSON.parse\<close>, rejects
  the empty text, the structured data is the list of the parsed values of the JSON-LD
  script blocks that parse, in document order, the blocks that do not parse left out; and
  whatever the parser does with any block, every other field of the snapshot is the same.
\<close>

theorem structured_data_skips_malformed:
  assumes "JSON_parse [] = Inl SyntaxError"
  shows "structuredData (collectScrapedData JSON_parse parseInt doc h)
           = List.map_filter (parsed_block JSON_parse) (select is_ld_json doc)
   \<and> (collectScrapedData JSON_parse parseInt doc h) \<lparr> structuredData := sd \<rparr>
       = (collectScrapedData JSON_parse' parseInt doc h) \<lparr> structuredData := sd \<rparr>"
proof -
  have a: "structuredData (collectScrapedData JSON_parse parseInt doc h)
           = List.map_filter (parsed_block JSON_parse) (select is_ld_json doc)"
    using foldl_add_structured [of JSON_parse "[]"] assms
    by (simp add: collectScrapedData_def Let_def collect_structuredData_def)
  have b: "(collectScrapedData JSON_parse parseInt doc h) \<lparr> structuredData := sd \<rparr>
       = (collectScrapedData JSON_parse' parseInt doc h) \<lparr> structuredData := sd \<rparr>"
    by (simp add: collectScrapedData_def Let_def)
  show ?thesis using a b by blast
qed

theorem structured_data_skips_malformed_witness:
  "structuredData (collectScrapedData sample_parse (\<lambda>s. ()) ld_json_page []) = [''{first}'', ''{second}'']"
proof -
  have p: "sample_parse [] = Inl SyntaxError"
    by (simp add: sample_parse_def)
  have s: "select is_ld_json ld_json_page =
       [Element ''script'' [(''type'', ''application/ld+json'')] [Text ''{first}''],
        Element ''script'' [(''type'', ''application/ld+json'')] [Text ''{broken''],
        Element ''script'' [(''type'', ''application/ld+json'')] [Text ''{second}'']]"
    by (simp add: is_ld_json_def sel_defs ld_json_page_def all_elements_def toLowerCase_def lower_char_def)
  from structured_data_skips_malformed [of sample_parse "\<lambda>s. ()" ld_json_page "[]"] p s
  show ?thesis
    by (simp add: map_filter_simps parsed_block_def inner_html_def sample_parse_def)
qed

section \<open>The store during synthesis\<close>


lemma cell_at_fresh: "cell_at (h @ [c]) (length h) = c"
  by (simp add: cell_at_def)


















section \<open>Images and nested schemas in the document\<close>





























lemma two_image_run:
  "generateSchemaMarkup http_resolve sample_result ''Product'' [] (JRef 3) two_image_store
     = (Inr [(''@context'', JStr ''https://schema.org''), (''@type'', JStr ''Product''),
             (''name'', JStr ''Shop''), (''url'', JStr ''https://x.test/page''),
             (''description'', JStr ''A shop''), (''image'', JRef 7)],
        two_image_store @
        [image_cell ''https://x.test/img.png'' (JStr ''Shop''),
         image_cell ''https://cdn.test/b.png'' (JStr ''B''),
         Arr [JRef 5, JRef 6]])"
  by code_simp












section \<open>What synthesis leaves unchanged\<close>


lemma shared_run:
  "generateSchemaMarkup http_resolve sample_result ''Product'' [offer_schema] (JRef 3) shared_store
     = (Inr [(''@context'', JStr ''https://schema.org''), (''@type'', JStr ''Product''),
             (''name'', JStr ''Shop''), (''url'', JStr ''https://x.test/page''),
             (''description'', JStr ''A shop''), (''image'', JRef 5), (''offers'', JRef 7)],
        [Arr [JRef 1],
         Obj [(''src'', JStr ''/img.png''), (''alt'', JStr ''Logo'')],
         Obj [(''price'', JStr ''10'')],
         Obj [(''offers'', JRef 4)],
         Arr [JRef 7],
         Obj [(''@type'', JStr ''ImageObject''), (''url'', JStr ''https://x.test/img.png''),
              (''alt'', JStr ''Logo'')],
         Arr [JRef 5],
         Obj [(''@type'', JStr ''Offer''), (''price'', JStr ''10'')]])"
  by code_simp


text \<open>
  The custom properties are not part of that statement. In the same call their array under
  \<^verbatim>\<open>offers\<close>, which \<^verbatim>\<open>Object.assign\<close> copied into the document by reference, receives the
  nested offer.
\<close>

lemma custom_array_receives_nested:
  "cell_at shared_store 4 = Arr []
   \<and> 4 \<in> direct_refs shared_store (JRef 3)
   \<and> cell_at (snd (generateSchemaMarkup http_resolve sample_result ''Product'' [offer_schema]
                     (JRef 3) shared_store)) 4 = Arr [JRef 7]"
  by (simp add: shared_run) (simp add: shared_store_def cell_at_def direct_refs_def own_props_def)

end
